theory Spec2Isabelle
  imports Complex_Main "HOL-Library.Finite_Map"
begin

section \<open>Vectors, objects and the random source\<close>

text \<open>
  A \<open>mathutils.Vector\<close> with three float components. Floats are idealised as reals,
  except in the two operations that decide the grid cell (see \<open>float_arith\<close> below).
  The two-component vectors of the square scripts are read only through \<open>.x\<close> and \<open>.y\<close>.
\<close>

datatype Vector = Vector (vx: real) (vy: real) (vz: real)

definition length_v :: "Vector \<Rightarrow> real" where
  "length_v v = sqrt ((vx v)\<^sup>2 + (vy v)\<^sup>2 + (vz v)\<^sup>2)"

definition sub_v :: "Vector \<Rightarrow> Vector \<Rightarrow> Vector" where
  "sub_v a b = Vector (vx a - vx b) (vy a - vy b) (vz a - vz b)"

definition xy :: "Vector \<Rightarrow> Vector" where
  "xy v = Vector (vx v) (vy v) 0"

text \<open>A selected Blender object: only its name and its \<open>dimensions\<close> are read.\<close>

record object =
  name :: string
  dimensions :: Vector

text \<open>
  The module-level generator \<open>random\<close>: \<open>rnd k\<close> is the value of the \<open>k\<close>-th call of
  \<open>random.random()\<close>, which lies in \<open>[0, 1)\<close>, and \<open>random.uniform(a, b)\<close> is
  \<open>a + (b - a) * random()\<close>. With draws in that range \<open>math.sqrt\<close> never sees a
  negative argument.
\<close>

type_synonym random_source = "nat \<Rightarrow> real"

definition uniform :: "real \<Rightarrow> real \<Rightarrow> real \<Rightarrow> real" where
  "uniform a b u = a + (b - a) * u"

datatype error = ZeroDivisionError | OverflowError | KeyError | TypeError

text \<open>
  What a script does to the scene for one requested copy. \<open>Placed Original obj p\<close> is
  \<open>obj.location = p\<close>; \<open>Placed Duplicate obj p\<close> is \<open>obj.copy()\<close> linked at \<open>p\<close>;
  \<open>Failed\<close> is the message \<open>Could not place ... after 1000 attempts.\<close>
\<close>

datatype target = Original | Duplicate

datatype outcome = Placed target object Vector | Failed target object

fun placed :: "outcome list \<Rightarrow> (Vector \<times> Vector) list" where
  "placed [] = []"
| "placed (Placed t obj p # os) = (p, dimensions obj) # placed os"
| "placed (Failed t obj # os) = placed os"

text \<open>
  The local variables of a run: the list \<open>positions\<close>, the effects so far, and the
  number of sampling iterations done (iteration \<open>i\<close> consumes the draws \<open>2 i\<close> and
  \<open>2 i + 1\<close>). The grid scripts also have the dictionary \<open>grid\<close>.
\<close>

type_synonym grid_dict = "(int \<times> int, (Vector \<times> Vector) list) fmap"

record state =
  positions :: "(Vector \<times> Vector) list"
  outcomes :: "outcome list"
  iters :: nat

record gstate = state +
  grid :: grid_dict

definition init_state :: state where
  "init_state = \<lparr>positions = [], outcomes = [], iters = 0\<rparr>"

definition init_gstate :: gstate where
  "init_gstate = \<lparr>positions = [], outcomes = [], iters = 0, grid = fmempty\<rparr>"

section \<open>Control structures\<close>

text \<open>
  A raised exception is \<open>Inl (e, s)\<close>, with the state at the moment of the raise.
  \<open>for_range_else n body orelse\<close> is \<open>for attempt in range(n): body\<close> with an
  \<open>else:\<close> branch; the body returns \<open>True\<close> when it leaves by \<open>break\<close>.
\<close>

type_synonym 's result = "(error \<times> 's) + 's"

fun for_range_else ::
  "nat \<Rightarrow> ('s \<Rightarrow> (error \<times> 's) + (bool \<times> 's)) \<Rightarrow> ('s \<Rightarrow> 's) \<Rightarrow> 's \<Rightarrow> 's result" where
  "for_range_else 0 body orelse s = Inr (orelse s)"
| "for_range_else (Suc n) body orelse s =
     (case body s of
        Inl e \<Rightarrow> Inl e
      | Inr (brk, s') \<Rightarrow> if brk then Inr s' else for_range_else n body orelse s')"

fun for_each :: "'a list \<Rightarrow> ('a \<Rightarrow> 's \<Rightarrow> 's result) \<Rightarrow> 's \<Rightarrow> 's result" where
  "for_each [] body s = Inr s"
| "for_each (x # xs) body s =
     (case body x s of Inl e \<Rightarrow> Inl e | Inr s' \<Rightarrow> for_each xs body s')"

text \<open>\<open>exclusion_zones or []\<close>: \<open>None\<close> and the empty list both become the empty list.\<close>

definition or_empty :: "'a list option \<Rightarrow> 'a list" where
  "or_empty exclusion_zones = (case exclusion_zones of None \<Rightarrow> [] | Some zs \<Rightarrow> zs)"

fun state_of :: "'s result \<Rightarrow> 's" where
  "state_of (Inl (e, s)) = s"
| "state_of (Inr s) = s"

fun step_state :: "(error \<times> 's) + (bool \<times> 's) \<Rightarrow> 's" where
  "step_state (Inl (e, s)) = s"
| "step_state (Inr (brk, s)) = s"

section \<open>The spatial grid of the two duplicating scripts\<close>

text \<open>
  Two float operations decide in which cell a record lands, and their rounding matters
  there, so they are parameters of the model. \<open>float_div fa a b\<close> is the float quotient
  \<open>a / b\<close> for a non-zero \<open>b\<close> (rounded; \<open>4 / 50\<close> is a little more than \<open>2/25\<close>, and a
  tiny quotient underflows to 0). \<open>int(a // b)\<close> raises \<open>ZeroDivisionError\<close> for a zero
  divisor; otherwise it is the floor of the quotient of the two floats, except where the
  float result is not that floor, and then \<open>floordiv_inexact fa a b\<close> is its result:
  \<open>OverflowError\<close> when the float quotient is infinite, or the integer that the rounded
  quotient gives. All other float arithmetic is idealised as real arithmetic.
\<close>

record float_arith =
  float_div :: "real \<Rightarrow> real \<Rightarrow> real"
  floordiv_inexact :: "real \<Rightarrow> real \<Rightarrow> (error + int) option"

definition int_floordiv :: "float_arith \<Rightarrow> real \<Rightarrow> real \<Rightarrow> error + int" where
  "int_floordiv fa a b =
     (if b = 0 then Inl ZeroDivisionError
      else case floordiv_inexact fa a b of
        Some res \<Rightarrow> res
      | None \<Rightarrow> Inr \<lfloor>a / b\<rfloor>)"

text \<open>
  \<open>(int(pos.x // grid_size), int(pos.y // grid_size))\<close>, the first component computed
  first.
\<close>

definition grid_cell :: "float_arith \<Rightarrow> real \<Rightarrow> Vector \<Rightarrow> error + (int \<times> int)" where
  "grid_cell fa grid_size pos =
     (case int_floordiv fa (vx pos) grid_size of
        Inl e \<Rightarrow> Inl e
      | Inr cx \<Rightarrow>
          (case int_floordiv fa (vy pos) grid_size of
             Inl e \<Rightarrow> Inl e
           | Inr cy \<Rightarrow> Inr (cx, cy)))"

definition add_to_grid :: "float_arith \<Rightarrow> real \<Rightarrow> Vector \<Rightarrow> Vector \<Rightarrow> grid_dict \<Rightarrow> error + grid_dict" where
  "add_to_grid fa grid_size pos obj_dimensions g =
     (case grid_cell fa grid_size pos of
        Inl e \<Rightarrow> Inl e
      | Inr c \<Rightarrow>
          (let g1 = (if c |\<notin>| fmdom g then fmupd c [] g else g) in
           case fmlookup g1 c of
             None \<Rightarrow> Inl KeyError
           | Some rs \<Rightarrow> Inr (fmupd c (rs @ [(pos, obj_dimensions)]) g1)))"

definition neighbors :: "int \<times> int \<Rightarrow> (int \<times> int) list" where
  "neighbors c = [(fst c + dx, snd c + dy). dx \<leftarrow> [-1, 0, 1], dy \<leftarrow> [-1, 0, 1]]"

definition min_dist :: "Vector \<Rightarrow> Vector \<Rightarrow> real \<Rightarrow> real" where
  "min_dist obj_dimensions existing_dims padding =
     max (vx obj_dimensions) (vy obj_dimensions) / 2 +
     max (vx existing_dims) (vy existing_dims) / 2 + padding"

definition cell_records :: "grid_dict \<Rightarrow> int \<times> int \<Rightarrow> (Vector \<times> Vector) list" where
  "cell_records g c = (case fmlookup g c of None \<Rightarrow> [] | Some rs \<Rightarrow> rs)"

definition cell_count :: "grid_dict \<Rightarrow> nat" where
  "cell_count g = fcard (fmdom g)"

definition record_count :: "grid_dict \<Rightarrow> nat" where
  "record_count g = (\<Sum>c \<in> fset (fmdom g). length (cell_records g c))"

definition planar_dist :: "Vector \<Rightarrow> Vector \<Rightarrow> real" where
  "planar_dist p q = sqrt ((vx p - vx q)\<^sup>2 + (vy p - vy q)\<^sup>2)"

section \<open>DistributeAndDuplicateWithinCircle.py\<close>

definition is_valid_position_DDWC ::
  "float_arith \<Rightarrow> Vector \<Rightarrow> real \<Rightarrow> (Vector \<times> real) list \<Rightarrow> real \<Rightarrow> real \<Rightarrow> grid_dict \<Rightarrow>
   Vector \<Rightarrow> Vector \<Rightarrow> error + bool" where
  "is_valid_position_DDWC fa area_center area_radius exclusion_zones padding grid_size g
     pos obj_dimensions =
     (if sqrt ((vx pos - vx area_center)\<^sup>2 + (vy pos - vy area_center)\<^sup>2) > area_radius
      then Inr False
      else if list_ex (\<lambda>(zone_center, zone_radius).
                sqrt ((vx pos - vx zone_center)\<^sup>2 + (vy pos - vy zone_center)\<^sup>2) < zone_radius)
              exclusion_zones
      then Inr False
      else case grid_cell fa grid_size pos of
        Inl e \<Rightarrow> Inl e
      | Inr c \<Rightarrow>
          Inr (\<not> list_ex (\<lambda>neighbor.
                 case fmlookup g neighbor of
                   None \<Rightarrow> False
                 | Some rs \<Rightarrow>
                     list_ex (\<lambda>(existing_pos, existing_dims).
                       sqrt ((vx pos - vx existing_pos)\<^sup>2 + (vy pos - vy existing_pos)\<^sup>2)
                         < min_dist obj_dimensions existing_dims padding) rs)
               (neighbors c)))"

definition sample_DDWC :: "Vector \<Rightarrow> real \<Rightarrow> random_source \<Rightarrow> nat \<Rightarrow> Vector" where
  "sample_DDWC area_center area_radius rnd i =
     (let rand_angle = uniform 0 (2 * pi) (rnd (2 * i));
          rand_radius = sqrt (uniform 0 1 (rnd (2 * i + 1))) * area_radius;
          rand_x = vx area_center + rand_radius * cos rand_angle;
          rand_y = vy area_center + rand_radius * sin rand_angle
      in Vector rand_x rand_y 0)"

definition attempt_DDWC ::
  "float_arith \<Rightarrow> Vector \<Rightarrow> real \<Rightarrow> (Vector \<times> real) list \<Rightarrow> real \<Rightarrow> real \<Rightarrow> random_source \<Rightarrow>
   target \<Rightarrow> object \<Rightarrow> gstate \<Rightarrow> (error \<times> gstate) + (bool \<times> gstate)" where
  "attempt_DDWC fa area_center area_radius exclusion_zones padding grid_size rnd tgt obj s =
     (let position = sample_DDWC area_center area_radius rnd (iters s);
          s1 = s\<lparr>iters := Suc (iters s)\<rparr>
      in case is_valid_position_DDWC fa area_center area_radius exclusion_zones padding
                grid_size (grid s1) position (dimensions obj) of
           Inl e \<Rightarrow> Inl (e, s1)
         | Inr ok \<Rightarrow>
             if ok then
               (let s2 = s1\<lparr>outcomes := outcomes s1 @ [Placed tgt obj position]\<rparr>
                in case add_to_grid fa grid_size position (dimensions obj) (grid s2) of
                     Inl e \<Rightarrow> Inl (e, s2)
                   | Inr g \<Rightarrow> Inr (True, s2\<lparr>grid := g\<rparr>))
             else Inr (False, s1))"

definition place_DDWC ::
  "float_arith \<Rightarrow> Vector \<Rightarrow> real \<Rightarrow> (Vector \<times> real) list \<Rightarrow> real \<Rightarrow> real \<Rightarrow> random_source \<Rightarrow>
   target \<Rightarrow> object \<Rightarrow> gstate \<Rightarrow> gstate result" where
  "place_DDWC fa area_center area_radius exclusion_zones padding grid_size rnd tgt obj =
     for_range_else 1000
       (attempt_DDWC fa area_center area_radius exclusion_zones padding grid_size rnd tgt obj)
       (\<lambda>s. s\<lparr>outcomes := outcomes s @ [Failed tgt obj]\<rparr>)"

definition process_DDWC ::
  "float_arith \<Rightarrow> Vector \<Rightarrow> real \<Rightarrow> int \<Rightarrow> (Vector \<times> real) list \<Rightarrow> real \<Rightarrow> real \<Rightarrow> random_source \<Rightarrow>
   object \<Rightarrow> gstate \<Rightarrow> gstate result" where
  "process_DDWC fa area_center area_radius num_duplicates exclusion_zones padding grid_size rnd
     obj s =
     (case place_DDWC fa area_center area_radius exclusion_zones padding grid_size rnd
             Original obj s of
        Inl e \<Rightarrow> Inl e
      | Inr s1 \<Rightarrow>
          for_each [0..<nat num_duplicates]
            (\<lambda>_. place_DDWC fa area_center area_radius exclusion_zones padding grid_size rnd
                   Duplicate obj) s1)"

definition distribute_and_duplicate_objects_DDWC ::
  "float_arith \<Rightarrow> Vector \<Rightarrow> real \<Rightarrow> int \<Rightarrow> (Vector \<times> real) list option \<Rightarrow> real \<Rightarrow>
   object list \<Rightarrow> random_source \<Rightarrow> gstate result" where
  "distribute_and_duplicate_objects_DDWC fa area_center area_radius num_duplicates
     exclusion_zones padding selected_objects rnd =
     (if selected_objects = [] then Inr init_gstate
      else
        (let zones = or_empty exclusion_zones;
             grid_size = float_div fa area_radius 50
         in for_each selected_objects
              (process_DDWC fa area_center area_radius num_duplicates zones padding grid_size rnd)
              init_gstate))"

section \<open>DistributeAndDuplicateWithinSquare.py\<close>

definition sample_square :: "Vector \<Rightarrow> Vector \<Rightarrow> random_source \<Rightarrow> nat \<Rightarrow> Vector" where
  "sample_square area_min area_max rnd i =
     (let rand_x = uniform (vx area_min) (vx area_max) (rnd (2 * i));
          rand_y = uniform (vy area_min) (vy area_max) (rnd (2 * i + 1))
      in Vector rand_x rand_y 0)"

definition is_valid_position_DDWS ::
  "float_arith \<Rightarrow> (Vector \<times> Vector) list \<Rightarrow> real \<Rightarrow> real \<Rightarrow> grid_dict \<Rightarrow> Vector \<Rightarrow> Vector \<Rightarrow> error + bool" where
  "is_valid_position_DDWS fa exclusion_zones padding grid_size g pos obj_dimensions =
     (if list_ex (\<lambda>(zone_min, zone_max).
            vx zone_min \<le> vx pos \<and> vx pos \<le> vx zone_max \<and>
            vy zone_min \<le> vy pos \<and> vy pos \<le> vy zone_max) exclusion_zones
      then Inr False
      else case grid_cell fa grid_size pos of
        Inl e \<Rightarrow> Inl e
      | Inr c \<Rightarrow>
          Inr (\<not> list_ex (\<lambda>neighbor.
                 case fmlookup g neighbor of
                   None \<Rightarrow> False
                 | Some rs \<Rightarrow>
                     list_ex (\<lambda>(existing_pos, existing_dims).
                       length_v (sub_v pos existing_pos)
                         < min_dist obj_dimensions existing_dims padding) rs)
               (neighbors c)))"

definition attempt_DDWS ::
  "float_arith \<Rightarrow> Vector \<Rightarrow> Vector \<Rightarrow> (Vector \<times> Vector) list \<Rightarrow> real \<Rightarrow> real \<Rightarrow> random_source \<Rightarrow>
   target \<Rightarrow> object \<Rightarrow> gstate \<Rightarrow> (error \<times> gstate) + (bool \<times> gstate)" where
  "attempt_DDWS fa area_min area_max exclusion_zones padding grid_size rnd tgt obj s =
     (let position = sample_square area_min area_max rnd (iters s);
          s1 = s\<lparr>iters := Suc (iters s)\<rparr>
      in case is_valid_position_DDWS fa exclusion_zones padding grid_size (grid s1) position
                (dimensions obj) of
           Inl e \<Rightarrow> Inl (e, s1)
         | Inr ok \<Rightarrow>
             if ok then
               (let s2 = s1\<lparr>outcomes := outcomes s1 @ [Placed tgt obj position]\<rparr>
                in case add_to_grid fa grid_size position (dimensions obj) (grid s2) of
                     Inl e \<Rightarrow> Inl (e, s2)
                   | Inr g \<Rightarrow> Inr (True, s2\<lparr>grid := g\<rparr>))
             else Inr (False, s1))"

definition place_DDWS ::
  "float_arith \<Rightarrow> Vector \<Rightarrow> Vector \<Rightarrow> (Vector \<times> Vector) list \<Rightarrow> real \<Rightarrow> real \<Rightarrow> random_source \<Rightarrow>
   target \<Rightarrow> object \<Rightarrow> gstate \<Rightarrow> gstate result" where
  "place_DDWS fa area_min area_max exclusion_zones padding grid_size rnd tgt obj =
     for_range_else 1000
       (attempt_DDWS fa area_min area_max exclusion_zones padding grid_size rnd tgt obj)
       (\<lambda>s. s\<lparr>outcomes := outcomes s @ [Failed tgt obj]\<rparr>)"

definition process_DDWS ::
  "float_arith \<Rightarrow> Vector \<Rightarrow> Vector \<Rightarrow> int \<Rightarrow> (Vector \<times> Vector) list \<Rightarrow> real \<Rightarrow> real \<Rightarrow> random_source \<Rightarrow>
   object \<Rightarrow> gstate \<Rightarrow> gstate result" where
  "process_DDWS fa area_min area_max num_duplicates exclusion_zones padding grid_size rnd obj s =
     (case place_DDWS fa area_min area_max exclusion_zones padding grid_size rnd Original obj s of
        Inl e \<Rightarrow> Inl e
      | Inr s1 \<Rightarrow>
          for_each [0..<nat num_duplicates]
            (\<lambda>_. place_DDWS fa area_min area_max exclusion_zones padding grid_size rnd
                   Duplicate obj) s1)"

definition distribute_and_duplicate_objects_DDWS ::
  "float_arith \<Rightarrow> Vector \<Rightarrow> Vector \<Rightarrow> int \<Rightarrow> (Vector \<times> Vector) list option \<Rightarrow> real \<Rightarrow>
   object list \<Rightarrow> random_source \<Rightarrow> gstate result" where
  "distribute_and_duplicate_objects_DDWS fa area_min area_max num_duplicates exclusion_zones
     padding selected_objects rnd =
     (if selected_objects = [] then Inr init_gstate
      else
        (let zones = or_empty exclusion_zones;
             grid_size = float_div fa (max (vx (sub_v area_max area_min)) (vy (sub_v area_max area_min))) 100
         in for_each selected_objects
              (process_DDWS fa area_min area_max num_duplicates zones padding grid_size rnd)
              init_gstate))"

section \<open>DistributeWithinCircle.py\<close>

definition is_valid_position_DWC ::
  "Vector \<Rightarrow> real \<Rightarrow> (Vector \<times> real) list \<Rightarrow> real \<Rightarrow> (Vector \<times> Vector) list \<Rightarrow>
   Vector \<Rightarrow> Vector \<Rightarrow> bool" where
  "is_valid_position_DWC area_center area_radius exclusion_zones padding ps pos obj_dimensions =
     (if length_v (sub_v pos area_center) > area_radius then False
      else if list_ex (\<lambda>(zone_center, zone_radius).
                length_v (sub_v pos zone_center) \<le> zone_radius) exclusion_zones
      then False
      else \<not> list_ex (\<lambda>(existing_pos, existing_dims).
                length_v (sub_v (xy pos) (xy existing_pos))
                  < min_dist obj_dimensions existing_dims padding) ps)"

definition sample_DWC :: "Vector \<Rightarrow> real \<Rightarrow> random_source \<Rightarrow> nat \<Rightarrow> Vector" where
  "sample_DWC area_center area_radius rnd i =
     (let angle = uniform 0 (2 * pi) (rnd (2 * i));
          radius = uniform 0 area_radius (rnd (2 * i + 1));
          rand_x = vx area_center + radius * cos angle;
          rand_y = vy area_center + radius * sin angle
      in Vector rand_x rand_y (vz area_center))"

definition attempt_DWC ::
  "Vector \<Rightarrow> real \<Rightarrow> (Vector \<times> real) list \<Rightarrow> real \<Rightarrow> random_source \<Rightarrow> object \<Rightarrow>
   state \<Rightarrow> (error \<times> state) + (bool \<times> state)" where
  "attempt_DWC area_center area_radius exclusion_zones padding rnd obj s =
     (let position = sample_DWC area_center area_radius rnd (iters s);
          s1 = s\<lparr>iters := Suc (iters s)\<rparr>
      in if is_valid_position_DWC area_center area_radius exclusion_zones padding
              (positions s1) position (dimensions obj)
         then Inr (True, s1\<lparr>positions := positions s1 @ [(position, dimensions obj)],
                            outcomes := outcomes s1 @ [Placed Original obj position]\<rparr>)
         else Inr (False, s1))"

definition place_DWC ::
  "Vector \<Rightarrow> real \<Rightarrow> (Vector \<times> real) list \<Rightarrow> real \<Rightarrow> random_source \<Rightarrow> object \<Rightarrow>
   state \<Rightarrow> state result" where
  "place_DWC area_center area_radius exclusion_zones padding rnd obj =
     for_range_else 1000
       (attempt_DWC area_center area_radius exclusion_zones padding rnd obj)
       (\<lambda>s. s\<lparr>outcomes := outcomes s @ [Failed Original obj]\<rparr>)"

definition distribute_objects_in_area_DWC ::
  "Vector \<Rightarrow> real \<Rightarrow> (Vector \<times> real) list option \<Rightarrow> real \<Rightarrow> object list \<Rightarrow>
   random_source \<Rightarrow> state result" where
  "distribute_objects_in_area_DWC area_center area_radius exclusion_zones padding
     selected_objects rnd =
     (if selected_objects = [] then Inr init_state
      else
        (let zones = or_empty exclusion_zones
         in for_each selected_objects
              (place_DWC area_center area_radius zones padding rnd) init_state))"

section \<open>DistributeWithinSquare.py\<close>

definition is_valid_position_DWS ::
  "(Vector \<times> Vector) list \<Rightarrow> real \<Rightarrow> (Vector \<times> Vector) list \<Rightarrow> Vector \<Rightarrow> Vector \<Rightarrow> bool" where
  "is_valid_position_DWS exclusion_zones padding ps pos obj_dimensions =
     (if list_ex (\<lambda>(zone_min, zone_max).
            vx zone_min \<le> vx pos \<and> vx pos \<le> vx zone_max \<and>
            vy zone_min \<le> vy pos \<and> vy pos \<le> vy zone_max) exclusion_zones
      then False
      else \<not> list_ex (\<lambda>(existing_pos, existing_dims).
                length_v (sub_v pos existing_pos)
                  < min_dist obj_dimensions existing_dims padding) ps)"

definition attempt_DWS ::
  "Vector \<Rightarrow> Vector \<Rightarrow> (Vector \<times> Vector) list \<Rightarrow> real \<Rightarrow> random_source \<Rightarrow> object \<Rightarrow>
   state \<Rightarrow> (error \<times> state) + (bool \<times> state)" where
  "attempt_DWS area_min area_max exclusion_zones padding rnd obj s =
     (let position = sample_square area_min area_max rnd (iters s);
          s1 = s\<lparr>iters := Suc (iters s)\<rparr>
      in if is_valid_position_DWS exclusion_zones padding (positions s1) position
              (dimensions obj)
         then Inr (True, s1\<lparr>positions := positions s1 @ [(position, dimensions obj)],
                            outcomes := outcomes s1 @ [Placed Original obj position]\<rparr>)
         else Inr (False, s1))"

definition place_DWS ::
  "Vector \<Rightarrow> Vector \<Rightarrow> (Vector \<times> Vector) list \<Rightarrow> real \<Rightarrow> random_source \<Rightarrow> object \<Rightarrow>
   state \<Rightarrow> state result" where
  "place_DWS area_min area_max exclusion_zones padding rnd obj =
     for_range_else 1000
       (attempt_DWS area_min area_max exclusion_zones padding rnd obj)
       (\<lambda>s. s\<lparr>outcomes := outcomes s @ [Failed Original obj]\<rparr>)"

definition distribute_objects_in_area_DWS ::
  "Vector \<Rightarrow> Vector \<Rightarrow> (Vector \<times> Vector) list option \<Rightarrow> real \<Rightarrow> object list \<Rightarrow>
   random_source \<Rightarrow> state result" where
  "distribute_objects_in_area_DWS area_min area_max exclusion_zones padding
     selected_objects rnd =
     (if selected_objects = [] then Inr init_state
      else
        (let zones = or_empty exclusion_zones
         in for_each selected_objects
              (place_DWS area_min area_max zones padding rnd) init_state))"

section \<open>DistributeAndDuplicateObjectsAddon.py\<close>

text \<open>
  \<open>area_size\<close> and \<open>zone_size\<close> are a float (a radius) or a pair (width, height);
  using one where the flag \<open>is_circle\<close> wants the other raises \<open>TypeError\<close>.
\<close>

datatype extent = Radius real | WidthHeight real real

definition is_inside_area :: "bool \<Rightarrow> Vector \<Rightarrow> extent \<Rightarrow> Vector \<Rightarrow> error + bool" where
  "is_inside_area is_circle area_center area_size pos =
     (if is_circle then
        (case area_size of
           Radius r \<Rightarrow> Inr (length_v (sub_v pos area_center) \<le> r)
         | WidthHeight w h \<Rightarrow> Inl TypeError)
      else
        (case area_size of
           Radius r \<Rightarrow> Inl TypeError
         | WidthHeight w h \<Rightarrow>
             (let half_width = w / 2; half_height = h / 2
              in Inr (vx area_center - half_width \<le> vx pos \<and>
                      vx pos \<le> vx area_center + half_width \<and>
                      vy area_center - half_height \<le> vy pos \<and>
                      vy pos \<le> vy area_center + half_height))))"

definition is_inside_exclusion_zone :: "bool \<Rightarrow> Vector \<Rightarrow> extent \<Rightarrow> Vector \<Rightarrow> error + bool" where
  "is_inside_exclusion_zone is_circle zone_center zone_size pos =
     (if is_circle then
        (case zone_size of
           Radius r \<Rightarrow> if length_v (sub_v pos zone_center) < r then Inr True else Inr False
         | WidthHeight w h \<Rightarrow> Inl TypeError)
      else
        (case zone_size of
           Radius r \<Rightarrow> Inl TypeError
         | WidthHeight w h \<Rightarrow>
             (let half_width = w / 2; half_height = h / 2
              in if vx zone_center - half_width \<le> vx pos \<and>
                    vx pos \<le> vx zone_center + half_width \<and>
                    vy zone_center - half_height \<le> vy pos \<and>
                    vy pos \<le> vy zone_center + half_height
                 then Inr True else Inr False)))"

definition is_valid_position_Addon ::
  "bool \<Rightarrow> Vector \<Rightarrow> extent \<Rightarrow> Vector \<Rightarrow> extent \<Rightarrow> real \<Rightarrow> (Vector \<times> Vector) list \<Rightarrow>
   Vector \<Rightarrow> Vector \<Rightarrow> error + bool" where
  "is_valid_position_Addon is_circle area_center area_size zone_center zone_size padding ps
     pos obj_dimensions =
     (case is_inside_area is_circle area_center area_size pos of
        Inl e \<Rightarrow> Inl e
      | Inr inside \<Rightarrow>
          if \<not> inside then Inr False
          else
            (case is_inside_exclusion_zone is_circle zone_center zone_size pos of
               Inl e \<Rightarrow> Inl e
             | Inr excluded \<Rightarrow>
                 if excluded then Inr False
                 else Inr (\<not> list_ex (\<lambda>(existing_pos, existing_dims).
                             length_v (sub_v pos existing_pos)
                               < min_dist obj_dimensions existing_dims padding) ps)))"

definition random_position ::
  "bool \<Rightarrow> Vector \<Rightarrow> extent \<Rightarrow> random_source \<Rightarrow> nat \<Rightarrow> error + Vector" where
  "random_position is_circle area_center area_size rnd i =
     (if is_circle then
        (case area_size of
           Radius r \<Rightarrow>
             (let rand_angle = uniform 0 (2 * pi) (rnd (2 * i));
                  rand_radius = sqrt (uniform 0 1 (rnd (2 * i + 1))) * r
              in Inr (Vector (vx area_center + rand_radius * cos rand_angle)
                             (vy area_center + rand_radius * sin rand_angle) 0))
         | WidthHeight w h \<Rightarrow> Inl TypeError)
      else
        (case area_size of
           Radius r \<Rightarrow> Inl TypeError
         | WidthHeight w h \<Rightarrow>
             (let half_width = w / 2; half_height = h / 2;
                  rand_x = uniform (vx area_center - half_width) (vx area_center + half_width)
                             (rnd (2 * i));
                  rand_y = uniform (vy area_center - half_height) (vy area_center + half_height)
                             (rnd (2 * i + 1))
              in Inr (Vector rand_x rand_y 0))))"

definition attempt_Addon ::
  "bool \<Rightarrow> Vector \<Rightarrow> extent \<Rightarrow> Vector \<Rightarrow> extent \<Rightarrow> real \<Rightarrow> random_source \<Rightarrow>
   target \<Rightarrow> object \<Rightarrow> state \<Rightarrow> (error \<times> state) + (bool \<times> state)" where
  "attempt_Addon is_circle area_center area_size zone_center zone_size padding rnd tgt obj s =
     (let s1 = s\<lparr>iters := Suc (iters s)\<rparr>
      in case random_position is_circle area_center area_size rnd (iters s) of
           Inl e \<Rightarrow> Inl (e, s1)
         | Inr position \<Rightarrow>
             (case is_valid_position_Addon is_circle area_center area_size zone_center
                     zone_size padding (positions s1) position (dimensions obj) of
                Inl e \<Rightarrow> Inl (e, s1)
              | Inr ok \<Rightarrow>
                  if ok
                  then Inr (True, s1\<lparr>positions := positions s1 @ [(position, dimensions obj)],
                                     outcomes := outcomes s1 @ [Placed tgt obj position]\<rparr>)
                  else Inr (False, s1)))"

definition place_Addon ::
  "bool \<Rightarrow> Vector \<Rightarrow> extent \<Rightarrow> Vector \<Rightarrow> extent \<Rightarrow> real \<Rightarrow> random_source \<Rightarrow>
   target \<Rightarrow> object \<Rightarrow> state \<Rightarrow> state result" where
  "place_Addon is_circle area_center area_size zone_center zone_size padding rnd tgt obj =
     for_range_else 1000
       (attempt_Addon is_circle area_center area_size zone_center zone_size padding rnd tgt obj)
       (\<lambda>s. s\<lparr>outcomes := outcomes s @ [Failed tgt obj]\<rparr>)"

definition process_Addon ::
  "bool \<Rightarrow> bool \<Rightarrow> Vector \<Rightarrow> extent \<Rightarrow> Vector \<Rightarrow> extent \<Rightarrow> int \<Rightarrow> real \<Rightarrow>
   random_source \<Rightarrow> object \<Rightarrow> state \<Rightarrow> state result" where
  "process_Addon is_circle distribute_only area_center area_size zone_center zone_size
     num_duplicates padding rnd obj s =
     (case place_Addon is_circle area_center area_size zone_center zone_size padding rnd
             Original obj s of
        Inl e \<Rightarrow> Inl e
      | Inr s1 \<Rightarrow>
          if distribute_only then Inr s1
          else for_each [0..<nat num_duplicates]
                 (\<lambda>_. place_Addon is_circle area_center area_size zone_center zone_size
                        padding rnd Duplicate obj) s1)"

definition distribute_and_duplicate_objects_Addon ::
  "Vector \<Rightarrow> extent \<Rightarrow> Vector \<Rightarrow> extent \<Rightarrow> int \<Rightarrow> real \<Rightarrow> bool \<Rightarrow> bool \<Rightarrow>
   object list \<Rightarrow> random_source \<Rightarrow> state result" where
  "distribute_and_duplicate_objects_Addon area_center area_size zone_center zone_size
     num_duplicates padding is_circle distribute_only selected_objects rnd =
     (if selected_objects = [] then Inr init_state
      else for_each selected_objects
             (process_Addon is_circle distribute_only area_center area_size zone_center
                zone_size num_duplicates padding rnd) init_state)"

section \<open>Concrete inputs used in the examples\<close>

text \<open>
  Float arithmetic on inputs where both operations are exact (the examples below divide
  50 by 50, 100 by 100 and the like).
\<close>

definition exact_arith :: float_arith where
  "exact_arith = \<lparr>float_div = (\<lambda>a b. a / b), floordiv_inexact = (\<lambda>a b. None)\<rparr>"

definition draws :: "real list \<Rightarrow> random_source" where
  "draws us k = (if k < length us then us ! k else 0)"

definition unit_object :: object where
  "unit_object = \<lparr>name = ''Cube'', dimensions = Vector (1/2) (1/2) (1/2)\<rparr>"

section \<open>Predicates of the stated properties\<close>


text \<open>Two placements keep the required planar distance.\<close>

definition separated :: "real \<Rightarrow> Vector \<times> Vector \<Rightarrow> Vector \<times> Vector \<Rightarrow> bool" where
  "separated padding r1 r2 =
     (min_dist (snd r1) (snd r2) padding \<le> planar_dist (fst r1) (fst r2))"

text \<open>Every record of the grid sits in the cell computed from its own position.\<close>

definition grid_wf :: "float_arith \<Rightarrow> real \<Rightarrow> grid_dict \<Rightarrow> bool" where
  "grid_wf fa grid_size g =
     fBall (fmdom g) (\<lambda>c. list_all (\<lambda>r. grid_cell fa grid_size (fst r) = Inr c) (cell_records g c))"

definition in_circle_zone :: "Vector \<Rightarrow> Vector \<times> real \<Rightarrow> bool" where
  "in_circle_zone p z = (planar_dist p (fst z) < snd z)"


text \<open>Every placement reported so far is found in the grid cell of its own position.\<close>

definition placed_in_grid :: "float_arith \<Rightarrow> real \<Rightarrow> grid_dict \<Rightarrow> (Vector \<times> Vector) list \<Rightarrow> bool" where
  "placed_in_grid fa grid_size g ps =
     list_all (\<lambda>r. case grid_cell fa grid_size (fst r) of
                      Inl e \<Rightarrow> False
                    | Inr c \<Rightarrow> r \<in> set (cell_records g c)) ps"

definition inv_grid :: "float_arith \<Rightarrow> real \<Rightarrow> gstate \<Rightarrow> bool" where
  "inv_grid fa grid_size s =
     (grid_wf fa grid_size (grid s) \<and>
      placed_in_grid fa grid_size (grid s) (placed (outcomes s)) \<and>
      record_count (grid s) = length (placed (outcomes s)))"



definition grid_grows :: "grid_dict \<Rightarrow> grid_dict \<Rightarrow> bool" where
  "grid_grows g g' =
     (cell_count g \<le> cell_count g' \<and> record_count g \<le> record_count g')"


text \<open>The placement state: what validation reads and a commit writes.\<close>

definition frame_g :: "gstate \<Rightarrow> grid_dict \<times> outcome list \<times> (Vector \<times> Vector) list" where
  "frame_g s = (grid s, outcomes s, positions s)"

definition frame :: "state \<Rightarrow> (Vector \<times> Vector) list \<times> outcome list" where
  "frame s = (positions s, outcomes s)"

text \<open>The states of an example run that places an object and one duplicate.\<close>

definition ex_s1 :: gstate where
  "ex_s1 = \<lparr>positions = [], outcomes = [Placed Original unit_object (Vector 0 0 0)],
            iters = 1, grid = fmupd (0, 0) [(Vector 0 0 0, Vector (1/2) (1/2) (1/2))] fmempty\<rparr>"

definition ex_s2 :: gstate where
  "ex_s2 = \<lparr>positions = [],
            outcomes = [Placed Original unit_object (Vector 0 0 0),
                        Placed Duplicate unit_object (Vector (25/16) 0 0)],
            iters = 2,
            grid = fmupd (1, 0) [(Vector (25/16) 0 0, Vector (1/2) (1/2) (1/2))]
                     (fmupd (0, 0) [(Vector 0 0 0, Vector (1/2) (1/2) (1/2))] fmempty)\<rparr>"

definition ex_failed :: gstate where
  "ex_failed = \<lparr>positions = [],
                outcomes = [Placed Original unit_object (Vector 0 0 0),
                            Failed Duplicate unit_object],
                iters = 1001,
                grid = fmupd (0, 0) [(Vector 0 0 0, Vector (1/2) (1/2) (1/2))] fmempty\<rparr>"

text \<open>The states of an example run of the plain square script on two objects.\<close>

definition ex_p1 :: state where
  "ex_p1 = \<lparr>positions = [(Vector 0 0 0, Vector (1/2) (1/2) (1/2))],
            outcomes = [Placed Original unit_object (Vector 0 0 0)],
            iters = 1\<rparr>"

definition ex_p2 :: state where
  "ex_p2 = \<lparr>positions = [(Vector 0 0 0, Vector (1/2) (1/2) (1/2)),
                         (Vector 1 0 0, Vector (1/2) (1/2) (1/2))],
            outcomes = [Placed Original unit_object (Vector 0 0 0),
                        Placed Original unit_object (Vector 1 0 0)],
            iters = 2\<rparr>"









section \<open>Lemmas about the control structures\<close>

lemma for_range_else_rel:
  assumes trans: "\<And>a b c. R a b \<Longrightarrow> R b c \<Longrightarrow> R a c"
    and body: "\<And>s. R s (step_state (body s))"
    and orelse: "\<And>s. R s (orelse s)"
  shows "R s (state_of (for_range_else n body orelse s))"
proof (induction n arbitrary: s)
  case 0
  show ?case by (simp add: orelse)
next
  case (Suc n)
  show ?case
  proof (cases "body s")
    case (Inl es)
    then show ?thesis using body [of s] by (cases es) simp
  next
    case (Inr bs)
    obtain brk s' where bs: "bs = (brk, s')" by (cases bs)
    have step: "R s s'" using body [of s] Inr bs by simp
    show ?thesis
    proof (cases brk)
      case True
      then show ?thesis using Inr bs step by simp
    next
      case False
      have "R s' (state_of (for_range_else n body orelse s'))" by (rule Suc.IH)
      with step have "R s (state_of (for_range_else n body orelse s'))" by (rule trans)
      then show ?thesis using Inr bs False by simp
    qed
  qed
qed

lemma for_each_rel:
  assumes refl: "\<And>a. R a a"
    and trans: "\<And>a b c. R a b \<Longrightarrow> R b c \<Longrightarrow> R a c"
    and body: "\<And>x s. x \<in> set xs \<Longrightarrow> R s (state_of (body x s))"
  shows "R s (state_of (for_each xs body s))"
  using body
proof (induction xs arbitrary: s)
  case Nil
  show ?case by (simp add: refl)
next
  case (Cons x xs)
  show ?case
  proof (cases "body x s")
    case (Inl es)
    then show ?thesis using Cons.prems [of x s] by (cases es) simp
  next
    case (Inr s')
    have step: "R s s'" using Cons.prems [of x s] Inr by simp
    have "R s' (state_of (for_each xs body s'))"
      by (rule Cons.IH) (simp add: Cons.prems)
    with step have "R s (state_of (for_each xs body s'))" by (rule trans)
    then show ?thesis using Inr by simp
  qed
qed

lemma for_range_else_measure:
  assumes body: "\<And>s. m (step_state (body s)) \<le> Suc (m s)"
    and orelse: "\<And>s. m (orelse s) = m s"
  shows "m (state_of (for_range_else n body orelse s)) \<le> m s + n"
proof (induction n arbitrary: s)
  case 0
  show ?case by (simp add: orelse)
next
  case (Suc n)
  show ?case
  proof (cases "body s")
    case (Inl es)
    then show ?thesis using body [of s] by (cases es) simp
  next
    case (Inr bs)
    obtain brk s' where bs: "bs = (brk, s')" by (cases bs)
    have step: "m s' \<le> Suc (m s)" using body [of s] Inr bs by simp
    show ?thesis
    proof (cases brk)
      case True
      then show ?thesis using Inr bs step by simp
    next
      case False
      have "m (state_of (for_range_else n body orelse s')) \<le> m s' + n" by (rule Suc.IH)
      then show ?thesis using Inr bs False step by simp
    qed
  qed
qed

lemma for_each_measure:
  assumes body: "\<And>x s. m (state_of (body x s)) \<le> m s + k"
  shows "m (state_of (for_each xs body s)) \<le> m s + k * length xs"
proof (induction xs arbitrary: s)
  case Nil
  show ?case by simp
next
  case (Cons x xs)
  show ?case
  proof (cases "body x s")
    case (Inl es)
    then show ?thesis using body [of x s] by (cases es) (simp add: trans_le_add1)
  next
    case (Inr s')
    have step: "m s' \<le> m s + k" using body [of x s] Inr by simp
    have "m (state_of (for_each xs body s')) \<le> m s' + k * length xs" by (rule Cons.IH)
    then show ?thesis using Inr step by simp
  qed
qed

lemma add_to_grid_cases:
  "add_to_grid fa gs pos dims g =
     (case grid_cell fa gs pos of
        Inl e \<Rightarrow> Inl e
      | Inr c \<Rightarrow> Inr (fmupd c (cell_records g c @ [(pos, dims)]) g))"
  by (auto simp: add_to_grid_def cell_records_def Let_def fmlookup_dom_iff
      split: sum.splits option.splits intro!: fmap_ext)

lemma iters_attempt_DDWC:
  "iters (step_state (attempt_DDWC fa c r zs pad gs rnd t obj s)) = Suc (iters s)"
  by (simp add: attempt_DDWC_def Let_def split: sum.splits)

lemma iters_place_DDWC:
  "iters (state_of (place_DDWC fa c r zs pad gs rnd t obj s)) \<le> iters s + 1000"
  unfolding place_DDWC_def
  by (rule for_range_else_measure) (simp_all add: iters_attempt_DDWC)

lemma iters_process_DDWC:
  "iters (state_of (process_DDWC fa c r n zs pad gs rnd obj s)) \<le> iters s + 1000 * (1 + nat n)"
proof (cases "place_DDWC fa c r zs pad gs rnd Original obj s")
  case (Inl es)
  then show ?thesis
    using iters_place_DDWC [of fa c r zs pad gs rnd Original obj s]
    by (cases es) (simp add: process_DDWC_def)
next
  case (Inr s1)
  have a: "iters s1 \<le> iters s + 1000"
    using iters_place_DDWC [of fa c r zs pad gs rnd Original obj s] Inr by simp
  have "iters (state_of (for_each [0..<nat n]
          (\<lambda>_. place_DDWC fa c r zs pad gs rnd Duplicate obj) s1))
        \<le> iters s1 + 1000 * length [0..<nat n]"
    by (rule for_each_measure) (rule iters_place_DDWC)
  then show ?thesis using a Inr by (simp add: process_DDWC_def)
qed

lemma iters_run_DDWC:
  "iters (state_of (distribute_and_duplicate_objects_DDWC fa c r n zs pad objs rnd))
     \<le> (length objs * (1 + nat n)) * 1000"
proof (cases "objs = []")
  case True
  then show ?thesis
    by (simp add: distribute_and_duplicate_objects_DDWC_def init_gstate_def)
next
  case False
  have "iters (state_of (for_each objs
          (process_DDWC fa c r n (or_empty zs) pad (float_div fa r 50) rnd) init_gstate))
        \<le> iters init_gstate + (1000 * (1 + nat n)) * length objs"
    by (rule for_each_measure) (rule iters_process_DDWC)
  then show ?thesis using False
    by (simp add: distribute_and_duplicate_objects_DDWC_def init_gstate_def Let_def algebra_simps)
qed

lemma iters_attempt_DWS:
  "iters (step_state (attempt_DWS amin amax zs pad rnd obj s)) = Suc (iters s)"
  by (simp add: attempt_DWS_def Let_def)

lemma iters_place_DWS:
  "iters (state_of (place_DWS amin amax zs pad rnd obj s)) \<le> iters s + 1000"
  unfolding place_DWS_def
  by (rule for_range_else_measure) (simp_all add: iters_attempt_DWS)

lemma iters_run_DWS:
  "iters (state_of (distribute_objects_in_area_DWS amin amax zs pad objs rnd))
     \<le> length objs * 1000"
proof (cases "objs = []")
  case True
  then show ?thesis
    by (simp add: distribute_objects_in_area_DWS_def init_state_def)
next
  case False
  have "iters (state_of (for_each objs
          (place_DWS amin amax (or_empty zs) pad rnd) init_state))
        \<le> iters init_state + 1000 * length objs"
    by (rule for_each_measure) (rule iters_place_DWS)
  then show ?thesis using False
    by (simp add: distribute_objects_in_area_DWS_def init_state_def Let_def mult.commute)
qed

section \<open>Lemmas about the grid\<close>

lemma cell_records_fmupd:
  "cell_records (fmupd c rs g) c' = (if c' = c then rs else cell_records g c')"
  by (simp add: cell_records_def)


lemma cell_records_outside: "c |\<notin>| fmdom g \<Longrightarrow> cell_records g c = []"
  by (simp add: cell_records_def fmdom_notD)

lemma record_count_empty: "record_count fmempty = 0"
  by (simp add: record_count_def)

lemma record_count_add:
  "record_count (fmupd c (cell_records g c @ [r]) g) = Suc (record_count g)"
proof -
  let ?A = "fset (fmdom g)"
  let ?g' = "fmupd c (cell_records g c @ [r]) g"
  have fin: "finite (?A - {c})" by simp
  have rest: "(\<Sum>x \<in> ?A - {c}. length (cell_records ?g' x)) =
              (\<Sum>x \<in> ?A - {c}. length (cell_records g x))"
    by (rule sum.cong) (simp_all add: cell_records_fmupd)
  have new: "record_count ?g' =
      length (cell_records g c @ [r]) + (\<Sum>x \<in> ?A - {c}. length (cell_records ?g' x))"
    by (simp add: record_count_def sum.insert_remove cell_records_fmupd)
  have old: "record_count g =
      length (cell_records g c) + (\<Sum>x \<in> ?A - {c}. length (cell_records g x))"
  proof (cases "c |\<in>| fmdom g")
    case True
    then show ?thesis by (simp add: record_count_def sum.remove [of ?A c])
  next
    case False
    then have "?A - {c} = ?A" by auto
    with False show ?thesis by (simp add: record_count_def cell_records_outside)
  qed
  show ?thesis using new old rest by simp
qed

lemma cell_count_add:
  "cell_count g \<le> cell_count (fmupd c rs g)"
  by (simp add: cell_count_def fcard_mono fsubset_finsertI)

lemma grid_wf_empty: "grid_wf fa gs fmempty"
  by (simp add: grid_wf_def)

lemma grid_wf_iff:
  "grid_wf fa gs g \<longleftrightarrow> (\<forall>c. \<forall>r \<in> set (cell_records g c). grid_cell fa gs (fst r) = Inr c)"
proof
  assume wf: "grid_wf fa gs g"
  show "\<forall>c. \<forall>r \<in> set (cell_records g c). grid_cell fa gs (fst r) = Inr c"
  proof (intro allI ballI)
    fix c r assume r: "r \<in> set (cell_records g c)"
    then have "c |\<in>| fmdom g" by (cases "c |\<in>| fmdom g") (simp_all add: cell_records_outside)
    with wf r show "grid_cell fa gs (fst r) = Inr c"
      by (auto simp: grid_wf_def list_all_iff)
  qed
next
  assume "\<forall>c. \<forall>r \<in> set (cell_records g c). grid_cell fa gs (fst r) = Inr c"
  then show "grid_wf fa gs g" unfolding grid_wf_def list_all_iff by blast
qed

lemma grid_wf_add:
  "grid_wf fa gs g \<Longrightarrow> grid_cell fa gs p = Inr c \<Longrightarrow>
   grid_wf fa gs (fmupd c (cell_records g c @ [(p, d)]) g)"
  by (auto simp: grid_wf_iff cell_records_fmupd)







lemma placed_append: "placed (os @ os') = placed os @ placed os'"
  by (induction os rule: placed.induct) simp_all

section \<open>One attempt of the duplicating circle script\<close>

lemma circle_zone_check:
  "list_ex (\<lambda>(zone_center, zone_radius).
      sqrt ((vx pos - vx zone_center)\<^sup>2 + (vy pos - vy zone_center)\<^sup>2) < zone_radius) zs
   \<longleftrightarrow> (\<exists>z \<in> set zs. in_circle_zone pos z)"
  by (simp add: list_ex_iff in_circle_zone_def planar_dist_def case_prod_beta)

lemma cell_check_planar:
  "(case fmlookup g n of
      None \<Rightarrow> False
    | Some rs \<Rightarrow>
        list_ex (\<lambda>(existing_pos, existing_dims).
          sqrt ((vx pos - vx existing_pos)\<^sup>2 + (vy pos - vy existing_pos)\<^sup>2)
            < min_dist dims existing_dims pad) rs)
   \<longleftrightarrow> (\<exists>q \<in> set (cell_records g n). \<not> separated pad (pos, dims) q)"
  by (cases "fmlookup g n")
    (simp_all add: cell_records_def list_ex_iff separated_def planar_dist_def case_prod_beta
      not_le)

lemma is_valid_position_DDWC_True:
  "is_valid_position_DDWC fa c r zs pad gs g pos dims = Inr True \<longleftrightarrow>
     planar_dist pos c \<le> r \<and>
     (\<forall>z \<in> set zs. \<not> in_circle_zone pos z) \<and>
     (\<exists>cell. grid_cell fa gs pos = Inr cell \<and>
        (\<forall>n \<in> set (neighbors cell). \<forall>q \<in> set (cell_records g n).
           separated pad (pos, dims) q))"
proof (cases "grid_cell fa gs pos")
  case (Inl e)
  then show ?thesis
    by (simp add: is_valid_position_DDWC_def)
next
  case (Inr cell)
  have "sqrt ((vx pos - vx c)\<^sup>2 + (vy pos - vy c)\<^sup>2) = planar_dist pos c"
    by (simp add: planar_dist_def)
  then show ?thesis using Inr
    unfolding is_valid_position_DDWC_def circle_zone_check cell_check_planar
    by (auto simp: list_ex_iff not_less)
qed

lemma is_valid_position_DDWC_error:
  "is_valid_position_DDWC fa c r zs pad gs g pos dims = Inl e \<Longrightarrow> grid_cell fa gs pos = Inl e"
  by (auto simp: is_valid_position_DDWC_def split: if_splits sum.splits)

lemma attempt_DDWC_cases:
  fixes s :: gstate
  obtains
    (raise) e where
      "attempt_DDWC fa c r zs pad gs rnd t obj s = Inl (e, s\<lparr>iters := Suc (iters s)\<rparr>)"
      "grid_cell fa gs (sample_DDWC c r rnd (iters s)) = Inl e"
  | (reject) "attempt_DDWC fa c r zs pad gs rnd t obj s = Inr (False, s\<lparr>iters := Suc (iters s)\<rparr>)"
      "is_valid_position_DDWC fa c r zs pad gs (grid s) (sample_DDWC c r rnd (iters s)) (dimensions obj) = Inr False"
  | (commit) cell where
      "attempt_DDWC fa c r zs pad gs rnd t obj s =
         Inr (True, s\<lparr>iters := Suc (iters s),
                       outcomes := outcomes s @ [Placed t obj (sample_DDWC c r rnd (iters s))],
                       grid := fmupd cell (cell_records (grid s) cell @ [(sample_DDWC c r rnd (iters s), dimensions obj)]) (grid s)\<rparr>)"
      "is_valid_position_DDWC fa c r zs pad gs (grid s) (sample_DDWC c r rnd (iters s)) (dimensions obj) = Inr True"
      "grid_cell fa gs (sample_DDWC c r rnd (iters s)) = Inr cell"
proof (cases "is_valid_position_DDWC fa c r zs pad gs (grid s) (sample_DDWC c r rnd (iters s)) (dimensions obj)")
  case (Inl e)
  then have "grid_cell fa gs (sample_DDWC c r rnd (iters s)) = Inl e"
    by (rule is_valid_position_DDWC_error)
  with Inl show ?thesis
    by (intro raise [of e]) (simp_all add: attempt_DDWC_def Let_def)
next
  case (Inr ok)
  show ?thesis
  proof (cases ok)
    case False
    with Inr show ?thesis
      by (intro reject) (simp_all add: attempt_DDWC_def Let_def)
  next
    case True
    with Inr obtain cell where cell: "grid_cell fa gs (sample_DDWC c r rnd (iters s)) = Inr cell"
      by (auto simp: is_valid_position_DDWC_True)
    show ?thesis
      using Inr True cell
      by (intro commit [of cell]) (simp_all add: attempt_DDWC_def Let_def add_to_grid_cases)
  qed
qed

section \<open>Lifting a step property to a run of the duplicating circle script\<close>

lemma place_DDWC_rel:
  assumes trans: "\<And>a b c. R a b \<Longrightarrow> R b c \<Longrightarrow> R a c"
    and step: "\<And>s. R s (step_state (attempt_DDWC fa c r zs pad gs rnd t obj s))"
    and fail: "\<And>s. R s (s\<lparr>outcomes := outcomes s @ [Failed t obj]\<rparr>)"
  shows "R s (state_of (place_DDWC fa c r zs pad gs rnd t obj s))"
  unfolding place_DDWC_def
proof (rule for_range_else_rel [where R = R])
  show "R a b \<Longrightarrow> R b d \<Longrightarrow> R a d" for a b d by (rule trans)
  show "R s' (step_state (attempt_DDWC fa c r zs pad gs rnd t obj s'))" for s' by (rule step)
  show "R s' (s'\<lparr>outcomes := outcomes s' @ [Failed t obj]\<rparr>)" for s' by (rule fail)
qed

lemma process_DDWC_rel:
  assumes trans: "\<And>a b c. R a b \<Longrightarrow> R b c \<Longrightarrow> R a c"
    and refl: "\<And>a. R a a"
    and step: "\<And>t s. R s (step_state (attempt_DDWC fa c r zs pad gs rnd t obj s))"
    and fail: "\<And>t s. R s (s\<lparr>outcomes := outcomes s @ [Failed t obj]\<rparr>)"
  shows "R s (state_of (process_DDWC fa c r n zs pad gs rnd obj s))"
proof -
  have place: "R s' (state_of (place_DDWC fa c r zs pad gs rnd t obj s'))" for t s'
    by (rule place_DDWC_rel [of R, OF trans step fail])
  show ?thesis
  proof (cases "place_DDWC fa c r zs pad gs rnd Original obj s")
    case (Inl es)
    then show ?thesis using place [of s Original]
      by (cases es) (simp add: process_DDWC_def)
  next
    case (Inr s1)
    have a: "R s s1" using place [of s Original] Inr by simp
    have "R s1 (state_of (for_each [0..<nat n]
            (\<lambda>_. place_DDWC fa c r zs pad gs rnd Duplicate obj) s1))"
    proof (rule for_each_rel [where R = R])
      show "R a a" for a by (rule refl)
      show "R a b \<Longrightarrow> R b d \<Longrightarrow> R a d" for a b d by (rule trans)
      show "R s' (state_of (place_DDWC fa c r zs pad gs rnd Duplicate obj s'))" for s'
        by (rule place)
    qed
    with a have "R s (state_of (for_each [0..<nat n]
            (\<lambda>_. place_DDWC fa c r zs pad gs rnd Duplicate obj) s1))"
      by (rule trans)
    then show ?thesis using Inr by (simp add: process_DDWC_def)
  qed
qed

lemma run_DDWC_rel:
  assumes trans: "\<And>a b c. R a b \<Longrightarrow> R b c \<Longrightarrow> R a c"
    and refl: "\<And>a. R a a"
    and step: "\<And>t obj s. R s (step_state
                 (attempt_DDWC fa c r (or_empty zo) pad (float_div fa r 50) rnd t obj s))"
    and fail: "\<And>t obj s. R s (s\<lparr>outcomes := outcomes s @ [Failed t obj]\<rparr>)"
  shows "R init_gstate (state_of (distribute_and_duplicate_objects_DDWC fa c r n zo pad objs rnd))"
proof (cases "objs = []")
  case True
  then show ?thesis by (simp add: distribute_and_duplicate_objects_DDWC_def refl)
next
  case False
  have "R init_gstate (state_of (for_each objs
          (process_DDWC fa c r n (or_empty zo) pad (float_div fa r 50) rnd) init_gstate))"
  proof (rule for_each_rel [where R = R])
    show "R a a" for a by (rule refl)
    show "R a b \<Longrightarrow> R b d \<Longrightarrow> R a d" for a b d by (rule trans)
    show "R s (state_of (process_DDWC fa c r n (or_empty zo) pad (float_div fa r 50) rnd obj s))" for obj s
    proof (rule process_DDWC_rel [where R = R])
      show "R a b \<Longrightarrow> R b d \<Longrightarrow> R a d" for a b d by (rule trans)
      show "R a a" for a by (rule refl)
      show "R s' (step_state (attempt_DDWC fa c r (or_empty zo) pad (float_div fa r 50) rnd t obj s'))"
        for t s' by (rule step)
      show "R s' (s'\<lparr>outcomes := outcomes s' @ [Failed t obj]\<rparr>)" for t s'
        by (rule fail)
    qed
  qed
  then show ?thesis using False
    by (simp add: distribute_and_duplicate_objects_DDWC_def Let_def)
qed

lemma in_cell_iff:
  "(case grid_cell fa gs p of Inl e \<Rightarrow> False | Inr c \<Rightarrow> r \<in> set (cell_records g c)) \<longleftrightarrow>
   (\<exists>c. grid_cell fa gs p = Inr c \<and> r \<in> set (cell_records g c))"
  by (cases "grid_cell fa gs p") simp_all

lemma placed_in_grid_iff:
  "placed_in_grid fa gs g ps \<longleftrightarrow>
     (\<forall>r \<in> set ps. \<exists>c. grid_cell fa gs (fst r) = Inr c \<and> r \<in> set (cell_records g c))"
  by (simp only: placed_in_grid_def list_all_iff in_cell_iff)

lemma placed_in_grid_add:
  assumes old: "placed_in_grid fa gs g ps" and cell: "grid_cell fa gs p = Inr c"
  shows "placed_in_grid fa gs (fmupd c (cell_records g c @ [(p, d)]) g) (ps @ [(p, d)])"
  unfolding placed_in_grid_iff
proof
  fix r assume "r \<in> set (ps @ [(p, d)])"
  then consider "r \<in> set ps" | "r = (p, d)" by auto
  then show "\<exists>c'. grid_cell fa gs (fst r) = Inr c' \<and>
               r \<in> set (cell_records (fmupd c (cell_records g c @ [(p, d)]) g) c')"
  proof cases
    case 1
    with old obtain c' where "grid_cell fa gs (fst r) = Inr c'" "r \<in> set (cell_records g c')"
      unfolding placed_in_grid_iff by blast
    then show ?thesis by (intro exI [of _ c']) (auto simp: cell_records_fmupd)
  next
    case 2
    with cell show ?thesis by (intro exI [of _ c]) (simp add: cell_records_fmupd)
  qed
qed

lemma inv_grid_init: "inv_grid fa gs init_gstate"
  by (simp add: inv_grid_def init_gstate_def grid_wf_empty placed_in_grid_def record_count_empty)

lemma inv_grid_iters: "inv_grid fa gs (s\<lparr>iters := k\<rparr>) = inv_grid fa gs s"
  by (simp add: inv_grid_def)

lemma inv_grid_failed:
  "inv_grid fa gs (s\<lparr>outcomes := outcomes s @ [Failed t obj]\<rparr>) = inv_grid fa gs s"
  by (simp add: inv_grid_def placed_append)

lemma inv_grid_commit:
  assumes "inv_grid fa gs s" and "grid_cell fa gs p = Inr c"
  shows "inv_grid fa gs (s\<lparr>iters := k, outcomes := outcomes s @ [Placed t obj p],
            grid := fmupd c (cell_records (grid s) c @ [(p, dimensions obj)]) (grid s)\<rparr>)"
  using assms
  by (simp add: inv_grid_def placed_append grid_wf_add placed_in_grid_add record_count_add)

lemma attempt_DDWC_inv:
  "inv_grid fa gs s \<Longrightarrow> inv_grid fa gs (step_state (attempt_DDWC fa c r zs pad gs rnd t obj s))"
  by (rule attempt_DDWC_cases [of fa c r zs pad gs rnd t obj s])
     (simp_all add: inv_grid_iters inv_grid_commit)

lemma run_DDWC_inv:
  "inv_grid fa (float_div fa r 50) (state_of (distribute_and_duplicate_objects_DDWC fa c r n zo pad objs rnd))"
proof -
  have "inv_grid fa (float_div fa r 50) init_gstate \<longrightarrow>
        inv_grid fa (float_div fa r 50) (state_of (distribute_and_duplicate_objects_DDWC fa c r n zo pad objs rnd))"
    by (rule run_DDWC_rel [of "\<lambda>s s'. inv_grid fa (float_div fa r 50) s \<longrightarrow> inv_grid fa (float_div fa r 50) s'"])
       (simp_all add: attempt_DDWC_inv inv_grid_failed)
  then show ?thesis by (simp add: inv_grid_init)
qed

section \<open>The duplicating square script: attempts and lifting\<close>











section \<open>An example run of the duplicating circle script\<close>

lemma for_range_else_break:
  "body s = Inr (True, s') \<Longrightarrow> for_range_else (Suc n) body orelse s = Inr s'"
  by simp

lemma for_range_else_continue:
  "body s = Inr (False, s') \<Longrightarrow>
   for_range_else (Suc n) body orelse s = for_range_else n body orelse s'"
  by simp

lemma thousand: "(1000::nat) = Suc 999"
  by simp

lemma sqrt_1024: "sqrt (1 / 1024) = 1 / 32"
  by (rule real_sqrt_unique) (simp_all add: power2_eq_square)

lemma float_div_exact: "float_div exact_arith a b = a / b"
  by (simp add: exact_arith_def)

lemma floordiv_inexact_exact: "floordiv_inexact exact_arith a b = None"
  by (simp add: exact_arith_def)

lemmas example_defs =
  sample_DDWC_def is_valid_position_DDWC_def add_to_grid_def grid_cell_def int_floordiv_def
  floordiv_inexact_exact
  neighbors_def min_dist_def uniform_def draws_def unit_object_def init_gstate_def Let_def


lemma example_attempt_2:
  "attempt_DDWC exact_arith (Vector 0 0 0) 50 [] (1/10) 1 (draws [0, 0, 0, 1/1024]) Duplicate unit_object
     ex_s1 = Inr (True, ex_s2)"
  by (simp add: attempt_DDWC_def example_defs ex_s1_def ex_s2_def sqrt_1024)


lemma example_place_duplicate:
  "place_DDWC exact_arith (Vector 0 0 0) 50 [] (1/10) 1 (draws [0, 0, 0, 1/1024]) Duplicate
     unit_object ex_s1 = Inr ex_s2"
  unfolding place_DDWC_def thousand by (rule for_range_else_break) (rule example_attempt_2)


section \<open>Records stay in their cell\<close>









section \<open>How one requested copy ends\<close>

lemma for_range_else_cases:
  assumes keep: "\<And>s s'. body s = Inr (False, s') \<Longrightarrow> f s' = f s"
    and err: "\<And>s e s'. body s = Inl (e, s') \<Longrightarrow> f s' = f s"
  obtains
    (exhausted) s1 where "for_range_else n body orelse s = Inr (orelse s1)" "f s1 = f s"
  | (broke) s1 s' where "for_range_else n body orelse s = Inr s'" "f s1 = f s"
      "body s1 = Inr (True, s')"
  | (raised) e s1 s' where "for_range_else n body orelse s = Inl (e, s')" "f s1 = f s"
      "body s1 = Inl (e, s')"
proof -
  have "(\<exists>s1. for_range_else n body orelse s = Inr (orelse s1) \<and> f s1 = f s) \<or>
        (\<exists>s1 s'. for_range_else n body orelse s = Inr s' \<and> f s1 = f s \<and>
           body s1 = Inr (True, s')) \<or>
        (\<exists>e s1 s'. for_range_else n body orelse s = Inl (e, s') \<and> f s1 = f s \<and>
           body s1 = Inl (e, s'))"
  proof (induction n arbitrary: s)
    case 0
    show ?case by (intro disjI1 exI [of _ s]) simp
  next
    case (Suc n)
    show ?case
    proof (cases "body s")
      case (Inl es)
      obtain e s' where es: "es = (e, s')" by (cases es)
      with Inl have "body s = Inl (e, s')" by simp
      moreover from this have "for_range_else (Suc n) body orelse s = Inl (e, s')" by simp
      ultimately show ?thesis by blast
    next
      case (Inr bs)
      obtain brk s' where bs: "bs = (brk, s')" by (cases bs)
      show ?thesis
      proof (cases brk)
        case True
        with Inr bs have "body s = Inr (True, s')" by simp
        moreover from this have "for_range_else (Suc n) body orelse s = Inr s'" by simp
        ultimately show ?thesis by blast
      next
        case False
        with Inr bs have b: "body s = Inr (False, s')" by simp
        then have same: "f s' = f s" by (rule keep)
        from b have unf: "for_range_else (Suc n) body orelse s = for_range_else n body orelse s'"
          by simp
        show ?thesis using Suc.IH [of s'] unfolding unf same .
      qed
    qed
  qed
  then show thesis using exhausted broke raised by blast
qed

lemma attempt_DDWC_reject_frame:
  "attempt_DDWC fa c r zs pad gs rnd t obj s = Inr (False, s') \<Longrightarrow> frame_g s' = frame_g s"
  by (rule attempt_DDWC_cases [of fa c r zs pad gs rnd t obj s]) (auto simp: frame_g_def)

lemma attempt_DDWC_raise_frame:
  "attempt_DDWC fa c r zs pad gs rnd t obj s = Inl (e, s') \<Longrightarrow>
   frame_g s' = frame_g s \<and> grid_cell fa gs (sample_DDWC c r rnd (iters s)) = Inl e"
  by (rule attempt_DDWC_cases [of fa c r zs pad gs rnd t obj s]) (auto simp: frame_g_def)

lemma attempt_DDWC_commit:
  assumes "attempt_DDWC fa c r zs pad gs rnd t obj s = Inr (True, s')"
  shows "\<exists>cell. grid_cell fa gs (sample_DDWC c r rnd (iters s)) = Inr cell \<and>
     is_valid_position_DDWC fa c r zs pad gs (grid s) (sample_DDWC c r rnd (iters s))
       (dimensions obj) = Inr True \<and>
     s' = s\<lparr>iters := Suc (iters s),
            outcomes := outcomes s @ [Placed t obj (sample_DDWC c r rnd (iters s))],
            grid := fmupd cell (cell_records (grid s) cell @
                      [(sample_DDWC c r rnd (iters s), dimensions obj)]) (grid s)\<rparr>"
  using assms
  by (rule_tac attempt_DDWC_cases [of fa c r zs pad gs rnd t obj s]) auto

lemma place_DDWC_cases:
  obtains
    (gave_up) s1 where
      "place_DDWC fa c r zs pad gs rnd t obj s = Inr (s1\<lparr>outcomes := outcomes s1 @ [Failed t obj]\<rparr>)"
      "frame_g s1 = frame_g s"
  | (committed) s1 cell where
      "place_DDWC fa c r zs pad gs rnd t obj s =
         Inr (s1\<lparr>iters := Suc (iters s1),
                 outcomes := outcomes s1 @ [Placed t obj (sample_DDWC c r rnd (iters s1))],
                 grid := fmupd cell (cell_records (grid s1) cell @
                           [(sample_DDWC c r rnd (iters s1), dimensions obj)]) (grid s1)\<rparr>)"
      "frame_g s1 = frame_g s"
      "grid_cell fa gs (sample_DDWC c r rnd (iters s1)) = Inr cell"
      "is_valid_position_DDWC fa c r zs pad gs (grid s1) (sample_DDWC c r rnd (iters s1))
         (dimensions obj) = Inr True"
  | (raised) e s' p where
      "place_DDWC fa c r zs pad gs rnd t obj s = Inl (e, s')"
      "frame_g s' = frame_g s" "grid_cell fa gs p = Inl e"
proof (rule for_range_else_cases
    [where body = "attempt_DDWC fa c r zs pad gs rnd t obj" and f = frame_g and n = 1000
       and orelse = "\<lambda>s. s\<lparr>outcomes := outcomes s @ [Failed t obj]\<rparr>" and s = s])
  show "attempt_DDWC fa c r zs pad gs rnd t obj a = Inr (False, b) \<Longrightarrow> frame_g b = frame_g a"
    for a b by (rule attempt_DDWC_reject_frame)
  show "attempt_DDWC fa c r zs pad gs rnd t obj a = Inl (e, b) \<Longrightarrow> frame_g b = frame_g a"
    for a e b by (simp add: attempt_DDWC_raise_frame)
next
  fix s1
  assume run: "for_range_else 1000 (attempt_DDWC fa c r zs pad gs rnd t obj)
            (\<lambda>s. s\<lparr>outcomes := outcomes s @ [Failed t obj]\<rparr>) s =
          Inr (s1\<lparr>outcomes := outcomes s1 @ [Failed t obj]\<rparr>)"
    and fr: "frame_g s1 = frame_g s"
  show thesis by (rule gave_up [OF _ fr]) (simp add: place_DDWC_def run)
next
  fix s1 s'
  assume run: "for_range_else 1000 (attempt_DDWC fa c r zs pad gs rnd t obj)
            (\<lambda>s. s\<lparr>outcomes := outcomes s @ [Failed t obj]\<rparr>) s = Inr s'"
    and fr: "frame_g s1 = frame_g s"
    and brk: "attempt_DDWC fa c r zs pad gs rnd t obj s1 = Inr (True, s')"
  from attempt_DDWC_commit [OF brk] obtain cell where
    cell: "grid_cell fa gs (sample_DDWC c r rnd (iters s1)) = Inr cell"
    and valid: "is_valid_position_DDWC fa c r zs pad gs (grid s1) (sample_DDWC c r rnd (iters s1))
       (dimensions obj) = Inr True"
    and s': "s' = s1\<lparr>iters := Suc (iters s1),
            outcomes := outcomes s1 @ [Placed t obj (sample_DDWC c r rnd (iters s1))],
            grid := fmupd cell (cell_records (grid s1) cell @
                      [(sample_DDWC c r rnd (iters s1), dimensions obj)]) (grid s1)\<rparr>"
    by blast
  show thesis by (rule committed [OF _ fr cell valid]) (simp add: place_DDWC_def run s')
next
  fix e s1 s'
  assume run: "for_range_else 1000 (attempt_DDWC fa c r zs pad gs rnd t obj)
            (\<lambda>s. s\<lparr>outcomes := outcomes s @ [Failed t obj]\<rparr>) s = Inl (e, s')"
    and fr: "frame_g s1 = frame_g s"
    and err: "attempt_DDWC fa c r zs pad gs rnd t obj s1 = Inl (e, s')"
  from attempt_DDWC_raise_frame [OF err]
  have e: "grid_cell fa gs (sample_DDWC c r rnd (iters s1)) = Inl e"
    and fr': "frame_g s' = frame_g s" using fr by simp_all
  show thesis by (rule raised [OF _ fr' e]) (simp add: place_DDWC_def run)
qed

section \<open>The grid only grows\<close>

lemma for_range_else_rejecting:
  fixes s :: "'a state_scheme"
  assumes rej: "\<And>s. body s = Inr (False, s\<lparr>iters := Suc (iters s)\<rparr>)"
  shows "for_range_else n body orelse s = Inr (orelse (s\<lparr>iters := iters s + n\<rparr>))"
  by (induction n arbitrary: s) (simp_all add: rej)

lemma is_valid_position_DDWC_negative:
  "r < 0 \<Longrightarrow> is_valid_position_DDWC fa c r zs pad gs g pos dims = Inr False"
proof -
  assume "r < 0"
  moreover have "0 \<le> sqrt ((vx pos - vx c)\<^sup>2 + (vy pos - vy c)\<^sup>2)" by simp
  ultimately have "r < sqrt ((vx pos - vx c)\<^sup>2 + (vy pos - vy c)\<^sup>2)" by linarith
  then show ?thesis by (simp add: is_valid_position_DDWC_def)
qed

lemma place_DDWC_negative_radius:
  assumes "r < 0"
  shows "place_DDWC fa c r zs pad gs rnd t obj s =
     Inr (s\<lparr>iters := iters s + 1000, outcomes := outcomes s @ [Failed t obj]\<rparr>)"
proof -
  have "attempt_DDWC fa c r zs pad gs rnd t obj s' = Inr (False, s'\<lparr>iters := Suc (iters s')\<rparr>)"
    for s'
    by (simp add: attempt_DDWC_def Let_def is_valid_position_DDWC_negative [OF assms])
  then show ?thesis
    unfolding place_DDWC_def by (simp add: for_range_else_rejecting)
qed

lemma grid_grows_refl: "grid_grows g g"
  by (simp add: grid_grows_def)

lemma grid_grows_trans: "grid_grows a b \<Longrightarrow> grid_grows b c \<Longrightarrow> grid_grows a c"
  by (simp add: grid_grows_def)

lemma grid_grows_add: "grid_grows g (fmupd c (cell_records g c @ [r]) g)"
  by (simp add: grid_grows_def cell_count_add record_count_add)

lemma grid_grows_attempt_DDWC:
  "grid_grows (grid s) (grid (step_state (attempt_DDWC fa c r zs pad gs rnd t obj s)))"
  by (rule attempt_DDWC_cases [of fa c r zs pad gs rnd t obj s])
     (simp_all add: grid_grows_refl grid_grows_add)

lemma grid_grows_place_DDWC:
  "grid_grows (grid s) (grid (state_of (place_DDWC fa c r zs pad gs rnd t obj s)))"
  by (rule place_DDWC_rel [where R = "\<lambda>s s'. grid_grows (grid s) (grid s')"])
     (auto intro: grid_grows_trans simp: grid_grows_refl grid_grows_attempt_DDWC)

lemma grid_grows_process_DDWC:
  "grid_grows (grid s) (grid (state_of (process_DDWC fa c r n zs pad gs rnd obj s)))"
  by (rule process_DDWC_rel [where R = "\<lambda>s s'. grid_grows (grid s) (grid s')"])
     (auto intro: grid_grows_trans simp: grid_grows_refl grid_grows_attempt_DDWC)

lemma place_DDWC_failed_grid:
  assumes "place_DDWC fa c r zs pad gs rnd t obj s = Inr s'"
    and "outcomes s' = outcomes s @ [Failed t obj]"
  shows "grid s' = grid s"
  using assms
  by (rule_tac place_DDWC_cases [of fa c r zs pad gs rnd t obj s]) (auto simp: frame_g_def)

lemma place_DDWC_placed_count:
  assumes "place_DDWC fa c r zs pad gs rnd t obj s = Inr s'"
    and "\<exists>p. outcomes s' = outcomes s @ [Placed t obj p]"
  shows "record_count (grid s') = Suc (record_count (grid s))"
  using assms
  by (rule_tac place_DDWC_cases [of fa c r zs pad gs rnd t obj s])
     (auto simp: frame_g_def record_count_add)

section \<open>Separation of neighbouring placements\<close>






section \<open>The plain square script\<close>





lemma attempt_DWS_cases:
  fixes s :: state
  obtains
    (reject) "attempt_DWS amin amax zs pad rnd obj s = Inr (False, s\<lparr>iters := Suc (iters s)\<rparr>)"
      "\<not> is_valid_position_DWS zs pad (positions s) (sample_square amin amax rnd (iters s))
           (dimensions obj)"
  | (commit)
      "attempt_DWS amin amax zs pad rnd obj s =
         Inr (True, s\<lparr>iters := Suc (iters s),
                positions := positions s @ [(sample_square amin amax rnd (iters s), dimensions obj)],
                outcomes := outcomes s @
                  [Placed Original obj (sample_square amin amax rnd (iters s))]\<rparr>)"
      "is_valid_position_DWS zs pad (positions s) (sample_square amin amax rnd (iters s))
         (dimensions obj)"
  by (cases "is_valid_position_DWS zs pad (positions s) (sample_square amin amax rnd (iters s))
         (dimensions obj)") (simp_all add: attempt_DWS_def Let_def)







section \<open>An example run of the plain square script\<close>

lemma example_attempt_DWS_1:
  "attempt_DWS (Vector 0 0 0) (Vector 2 2 0) [] (1/10) (draws [0, 0, 1/2, 0]) unit_object
     init_state = Inr (True, ex_p1)"
  by (simp add: attempt_DWS_def sample_square_def is_valid_position_DWS_def uniform_def
      draws_def unit_object_def init_state_def ex_p1_def Let_def)

lemma example_attempt_DWS_2:
  "attempt_DWS (Vector 0 0 0) (Vector 2 2 0) [] (1/10) (draws [0, 0, 1/2, 0]) unit_object
     ex_p1 = Inr (True, ex_p2)"
  by (simp add: attempt_DWS_def sample_square_def is_valid_position_DWS_def uniform_def
      draws_def unit_object_def ex_p1_def ex_p2_def Let_def min_dist_def length_v_def sub_v_def)

lemma example_run_DWS:
  "distribute_objects_in_area_DWS (Vector 0 0 0) (Vector 2 2 0) None (1/10)
     [unit_object, unit_object] (draws [0, 0, 1/2, 0]) = Inr ex_p2"
proof -
  have p1: "place_DWS (Vector 0 0 0) (Vector 2 2 0) [] (1/10) (draws [0, 0, 1/2, 0])
              unit_object init_state = Inr ex_p1"
    unfolding place_DWS_def thousand by (rule for_range_else_break) (rule example_attempt_DWS_1)
  have p2: "place_DWS (Vector 0 0 0) (Vector 2 2 0) [] (1/10) (draws [0, 0, 1/2, 0])
              unit_object ex_p1 = Inr ex_p2"
    unfolding place_DWS_def thousand by (rule for_range_else_break) (rule example_attempt_DWS_2)
  show ?thesis
    by (simp add: distribute_objects_in_area_DWS_def or_empty_def float_div_exact p1 p2)
qed

section \<open>Placements stay inside the region and outside the zones\<close>










section \<open>Rejected candidates leave the placement state alone\<close>

lemma attempt_DDWC_rejected:
  assumes "is_valid_position_DDWC fa c r zs pad gs (grid s) (sample_DDWC c r rnd (iters s))
             (dimensions obj) = Inr False"
  shows "attempt_DDWC fa c r zs pad gs rnd t obj s = Inr (False, s\<lparr>iters := Suc (iters s)\<rparr>)"
  using assms by (simp add: attempt_DDWC_def Let_def)

lemma attempt_DWS_rejected:
  assumes "\<not> is_valid_position_DWS zs pad (positions s) (sample_square amin amax rnd (iters s))
             (dimensions obj)"
  shows "attempt_DWS amin amax zs pad rnd obj s = Inr (False, s\<lparr>iters := Suc (iters s)\<rparr>)"
  using assms by (simp add: attempt_DWS_def Let_def)

lemma attempt_Addon_rejected:
  assumes "random_position ic ac asz rnd (iters s) = Inr p"
    and "is_valid_position_Addon ic ac asz zc zsz pad (positions s) p (dimensions obj) = Inr False"
  shows "attempt_Addon ic ac asz zc zsz pad rnd t obj s = Inr (False, s\<lparr>iters := Suc (iters s)\<rparr>)"
  using assms by (simp add: attempt_Addon_def Let_def)

lemma attempt_DWS_reject_frame:
  "attempt_DWS amin amax zs pad rnd obj s = Inr (False, s') \<Longrightarrow> frame s' = frame s"
  by (rule attempt_DWS_cases [of amin amax zs pad rnd obj s]) (auto simp: frame_def)

lemma attempt_DWS_no_raise:
  "attempt_DWS amin amax zs pad rnd obj s \<noteq> Inl es"
  by (rule attempt_DWS_cases [of amin amax zs pad rnd obj s]) auto

lemma attempt_DWS_commit:
  assumes "attempt_DWS amin amax zs pad rnd obj s = Inr (True, s')"
  shows "is_valid_position_DWS zs pad (positions s) (sample_square amin amax rnd (iters s))
           (dimensions obj) \<and>
     s' = s\<lparr>iters := Suc (iters s),
            positions := positions s @ [(sample_square amin amax rnd (iters s), dimensions obj)],
            outcomes := outcomes s @
              [Placed Original obj (sample_square amin amax rnd (iters s))]\<rparr>"
  using assms
  by (rule_tac attempt_DWS_cases [of amin amax zs pad rnd obj s]) auto

lemma attempt_Addon_cases:
  fixes s :: state
  obtains
    (raise) e where
      "attempt_Addon ic ac asz zc zsz pad rnd t obj s = Inl (e, s\<lparr>iters := Suc (iters s)\<rparr>)"
  | (reject)
      "attempt_Addon ic ac asz zc zsz pad rnd t obj s = Inr (False, s\<lparr>iters := Suc (iters s)\<rparr>)"
  | (commit) p where
      "attempt_Addon ic ac asz zc zsz pad rnd t obj s =
         Inr (True, s\<lparr>iters := Suc (iters s),
                positions := positions s @ [(p, dimensions obj)],
                outcomes := outcomes s @ [Placed t obj p]\<rparr>)"
      "random_position ic ac asz rnd (iters s) = Inr p"
      "is_valid_position_Addon ic ac asz zc zsz pad (positions s) p (dimensions obj) = Inr True"
proof (cases "random_position ic ac asz rnd (iters s)")
  case (Inl e)
  then show ?thesis by (intro raise [of e]) (simp add: attempt_Addon_def Let_def)
next
  case (Inr p)
  show ?thesis
  proof (cases "is_valid_position_Addon ic ac asz zc zsz pad (positions s) p (dimensions obj)")
    case (Inl e)
    with Inr show ?thesis by (intro raise [of e]) (simp add: attempt_Addon_def Let_def)
  next
    case ok: (Inr ok)
    show ?thesis
    proof (cases ok)
      case True
      with Inr ok show ?thesis
        by (intro commit [of p]) (simp_all add: attempt_Addon_def Let_def)
    next
      case False
      with Inr ok show ?thesis by (intro reject) (simp add: attempt_Addon_def Let_def)
    qed
  qed
qed

lemma attempt_Addon_reject_frame:
  "attempt_Addon ic ac asz zc zsz pad rnd t obj s = Inr (False, s') \<Longrightarrow> frame s' = frame s"
  by (rule attempt_Addon_cases [of ic ac asz zc zsz pad rnd t obj s]) (auto simp: frame_def)

lemma attempt_Addon_raise_frame:
  "attempt_Addon ic ac asz zc zsz pad rnd t obj s = Inl (e, s') \<Longrightarrow> frame s' = frame s"
  by (rule attempt_Addon_cases [of ic ac asz zc zsz pad rnd t obj s]) (auto simp: frame_def)

lemma attempt_Addon_commit:
  assumes "attempt_Addon ic ac asz zc zsz pad rnd t obj s = Inr (True, s')"
  shows "\<exists>p. is_valid_position_Addon ic ac asz zc zsz pad (positions s) p (dimensions obj)
               = Inr True \<and>
     s' = s\<lparr>iters := Suc (iters s),
            positions := positions s @ [(p, dimensions obj)],
            outcomes := outcomes s @ [Placed t obj p]\<rparr>"
  using assms
  by (rule_tac attempt_Addon_cases [of ic ac asz zc zsz pad rnd t obj s]) auto

lemma place_DDWC_frame:
  "grid (state_of (place_DDWC fa c r zs pad gs rnd t obj s)) = grid s \<or>
   (\<exists>p cell. is_valid_position_DDWC fa c r zs pad gs (grid s) p (dimensions obj) = Inr True \<and>
      grid_cell fa gs p = Inr cell \<and>
      grid (state_of (place_DDWC fa c r zs pad gs rnd t obj s)) =
        fmupd cell (cell_records (grid s) cell @ [(p, dimensions obj)]) (grid s) \<and>
      outcomes (state_of (place_DDWC fa c r zs pad gs rnd t obj s)) =
        outcomes s @ [Placed t obj p])"
proof (rule place_DDWC_cases [of fa c r zs pad gs rnd t obj s])
  fix s1
  assume "place_DDWC fa c r zs pad gs rnd t obj s =
            Inr (s1\<lparr>outcomes := outcomes s1 @ [Failed t obj]\<rparr>)" "frame_g s1 = frame_g s"
  then show ?thesis by (simp add: frame_g_def)
next
  fix s1 :: gstate and cell
  let ?p = "sample_DDWC c r rnd (iters s1)"
  assume "place_DDWC fa c r zs pad gs rnd t obj s =
         Inr (s1\<lparr>iters := Suc (iters s1),
                 outcomes := outcomes s1 @ [Placed t obj ?p],
                 grid := fmupd cell (cell_records (grid s1) cell @ [(?p, dimensions obj)])
                           (grid s1)\<rparr>)"
    "frame_g s1 = frame_g s" "grid_cell fa gs ?p = Inr cell"
    "is_valid_position_DDWC fa c r zs pad gs (grid s1) ?p (dimensions obj) = Inr True"
  then show ?thesis
    by (intro disjI2 exI [of _ ?p] exI [of _ cell]) (simp add: frame_g_def)
next
  fix e s'
  assume "place_DDWC fa c r zs pad gs rnd t obj s = Inl (e, s')"
    "frame_g s' = frame_g s"
  then show ?thesis by (simp add: frame_g_def)
qed

lemma place_DWS_frame:
  "positions (state_of (place_DWS amin amax zs pad rnd obj s)) = positions s \<or>
   (\<exists>p. is_valid_position_DWS zs pad (positions s) p (dimensions obj) \<and>
      positions (state_of (place_DWS amin amax zs pad rnd obj s)) =
        positions s @ [(p, dimensions obj)] \<and>
      outcomes (state_of (place_DWS amin amax zs pad rnd obj s)) =
        outcomes s @ [Placed Original obj p])"
  unfolding place_DWS_def
proof (rule for_range_else_cases
    [where body = "attempt_DWS amin amax zs pad rnd obj" and f = frame and n = 1000
       and orelse = "\<lambda>s. s\<lparr>outcomes := outcomes s @ [Failed Original obj]\<rparr>" and s = s])
  show "attempt_DWS amin amax zs pad rnd obj a = Inr (False, b) \<Longrightarrow> frame b = frame a" for a b
    by (rule attempt_DWS_reject_frame)
  show "attempt_DWS amin amax zs pad rnd obj a = Inl (e, b) \<Longrightarrow> frame b = frame a" for a e b
    by (simp add: attempt_DWS_no_raise)
next
  fix s1
  assume "for_range_else 1000 (attempt_DWS amin amax zs pad rnd obj)
            (\<lambda>s. s\<lparr>outcomes := outcomes s @ [Failed Original obj]\<rparr>) s =
          Inr (s1\<lparr>outcomes := outcomes s1 @ [Failed Original obj]\<rparr>)" "frame s1 = frame s"
  then show "positions (state_of (for_range_else 1000 (attempt_DWS amin amax zs pad rnd obj)
            (\<lambda>s. s\<lparr>outcomes := outcomes s @ [Failed Original obj]\<rparr>) s)) = positions s \<or>
   (\<exists>p. is_valid_position_DWS zs pad (positions s) p (dimensions obj) \<and>
      positions (state_of (for_range_else 1000 (attempt_DWS amin amax zs pad rnd obj)
            (\<lambda>s. s\<lparr>outcomes := outcomes s @ [Failed Original obj]\<rparr>) s)) =
        positions s @ [(p, dimensions obj)] \<and>
      outcomes (state_of (for_range_else 1000 (attempt_DWS amin amax zs pad rnd obj)
            (\<lambda>s. s\<lparr>outcomes := outcomes s @ [Failed Original obj]\<rparr>) s)) =
        outcomes s @ [Placed Original obj p])"
    by (simp add: frame_def)
next
  fix s1 s'
  assume run: "for_range_else 1000 (attempt_DWS amin amax zs pad rnd obj)
            (\<lambda>s. s\<lparr>outcomes := outcomes s @ [Failed Original obj]\<rparr>) s = Inr s'"
    and fr: "frame s1 = frame s"
    and brk: "attempt_DWS amin amax zs pad rnd obj s1 = Inr (True, s')"
  from attempt_DWS_commit [OF brk] fr
  show "positions (state_of (for_range_else 1000 (attempt_DWS amin amax zs pad rnd obj)
            (\<lambda>s. s\<lparr>outcomes := outcomes s @ [Failed Original obj]\<rparr>) s)) = positions s \<or>
   (\<exists>p. is_valid_position_DWS zs pad (positions s) p (dimensions obj) \<and>
      positions (state_of (for_range_else 1000 (attempt_DWS amin amax zs pad rnd obj)
            (\<lambda>s. s\<lparr>outcomes := outcomes s @ [Failed Original obj]\<rparr>) s)) =
        positions s @ [(p, dimensions obj)] \<and>
      outcomes (state_of (for_range_else 1000 (attempt_DWS amin amax zs pad rnd obj)
            (\<lambda>s. s\<lparr>outcomes := outcomes s @ [Failed Original obj]\<rparr>) s)) =
        outcomes s @ [Placed Original obj p])"
    unfolding run
    by (intro disjI2 exI [of _ "sample_square amin amax rnd (iters s1)"])
       (simp add: frame_def)
next
  fix e s1 s'
  assume "attempt_DWS amin amax zs pad rnd obj s1 = Inl (e, s')"
  then show "positions (state_of (for_range_else 1000 (attempt_DWS amin amax zs pad rnd obj)
            (\<lambda>s. s\<lparr>outcomes := outcomes s @ [Failed Original obj]\<rparr>) s)) = positions s \<or>
   (\<exists>p. is_valid_position_DWS zs pad (positions s) p (dimensions obj) \<and>
      positions (state_of (for_range_else 1000 (attempt_DWS amin amax zs pad rnd obj)
            (\<lambda>s. s\<lparr>outcomes := outcomes s @ [Failed Original obj]\<rparr>) s)) =
        positions s @ [(p, dimensions obj)] \<and>
      outcomes (state_of (for_range_else 1000 (attempt_DWS amin amax zs pad rnd obj)
            (\<lambda>s. s\<lparr>outcomes := outcomes s @ [Failed Original obj]\<rparr>) s)) =
        outcomes s @ [Placed Original obj p])"
    by (simp add: attempt_DWS_no_raise)
qed

lemma place_Addon_frame_res:
  assumes res: "place_Addon ic ac asz zc zsz pad rnd t obj s = res"
  shows "positions (state_of res) = positions s \<or>
   (\<exists>p. is_valid_position_Addon ic ac asz zc zsz pad (positions s) p (dimensions obj)
           = Inr True \<and>
      positions (state_of res) = positions s @ [(p, dimensions obj)] \<and>
      outcomes (state_of res) = outcomes s @ [Placed t obj p])"
proof (rule for_range_else_cases
    [where body = "attempt_Addon ic ac asz zc zsz pad rnd t obj" and f = frame and n = 1000
       and orelse = "\<lambda>s. s\<lparr>outcomes := outcomes s @ [Failed t obj]\<rparr>" and s = s])
  show "attempt_Addon ic ac asz zc zsz pad rnd t obj a = Inr (False, b) \<Longrightarrow> frame b = frame a"
    for a b by (rule attempt_Addon_reject_frame)
  show "attempt_Addon ic ac asz zc zsz pad rnd t obj a = Inl (e, b) \<Longrightarrow> frame b = frame a"
    for a e b by (rule attempt_Addon_raise_frame)
next
  fix s1
  assume "for_range_else 1000 (attempt_Addon ic ac asz zc zsz pad rnd t obj)
            (\<lambda>s. s\<lparr>outcomes := outcomes s @ [Failed t obj]\<rparr>) s =
          Inr (s1\<lparr>outcomes := outcomes s1 @ [Failed t obj]\<rparr>)" "frame s1 = frame s"
  with res show ?thesis by (auto simp: place_Addon_def frame_def)
next
  fix s1 s'
  assume run: "for_range_else 1000 (attempt_Addon ic ac asz zc zsz pad rnd t obj)
            (\<lambda>s. s\<lparr>outcomes := outcomes s @ [Failed t obj]\<rparr>) s = Inr s'"
    and fr: "frame s1 = frame s"
    and brk: "attempt_Addon ic ac asz zc zsz pad rnd t obj s1 = Inr (True, s')"
  from attempt_Addon_commit [OF brk] obtain p where
    "is_valid_position_Addon ic ac asz zc zsz pad (positions s1) p (dimensions obj) = Inr True"
    "s' = s1\<lparr>iters := Suc (iters s1), positions := positions s1 @ [(p, dimensions obj)],
            outcomes := outcomes s1 @ [Placed t obj p]\<rparr>"
    by blast
  with res run fr show ?thesis
    by (intro disjI2 exI [of _ p]) (auto simp: place_Addon_def frame_def)
next
  fix e s1 s'
  assume run: "for_range_else 1000 (attempt_Addon ic ac asz zc zsz pad rnd t obj)
            (\<lambda>s. s\<lparr>outcomes := outcomes s @ [Failed t obj]\<rparr>) s = Inl (e, s')"
    and fr: "frame s1 = frame s"
    and err: "attempt_Addon ic ac asz zc zsz pad rnd t obj s1 = Inl (e, s')"
  from attempt_Addon_raise_frame [OF err] fr res run show ?thesis
    by (auto simp: place_Addon_def frame_def)
qed

lemma place_Addon_frame:
  "positions (state_of (place_Addon ic ac asz zc zsz pad rnd t obj s)) = positions s \<or>
   (\<exists>p. is_valid_position_Addon ic ac asz zc zsz pad (positions s) p (dimensions obj)
           = Inr True \<and>
      positions (state_of (place_Addon ic ac asz zc zsz pad rnd t obj s)) =
        positions s @ [(p, dimensions obj)] \<and>
      outcomes (state_of (place_Addon ic ac asz zc zsz pad rnd t obj s)) =
        outcomes s @ [Placed t obj p])"
  by (rule place_Addon_frame_res) simp

section \<open>Sampling in a circle and circular exclusion zones\<close>

lemma sqrt_quarter: "sqrt (1 / 4) = 1 / 2"
  by (rule real_sqrt_unique) (simp_all add: power2_eq_square)

lemma polar_dist: "sqrt ((\<rho> * cos \<theta>)\<^sup>2 + (\<rho> * sin \<theta>)\<^sup>2) = \<bar>\<rho>\<bar>"
proof -
  have "(\<rho> * cos \<theta>)\<^sup>2 + (\<rho> * sin \<theta>)\<^sup>2 = \<rho>\<^sup>2 * ((cos \<theta>)\<^sup>2 + (sin \<theta>)\<^sup>2)"
    by (simp only: power_mult_distrib distrib_left)
  also have "\<dots> = \<rho>\<^sup>2" by (simp add: add.commute)
  finally show ?thesis by simp
qed

lemma sample_DDWC_radius:
  "planar_dist (sample_DDWC c r rnd i) c = \<bar>sqrt (rnd (2 * i + 1)) * r\<bar>"
  by (simp add: sample_DDWC_def planar_dist_def uniform_def Let_def polar_dist del: abs_mult)

lemma random_position_radius:
  "random_position True c (Radius r) rnd i = Inr p \<Longrightarrow>
   planar_dist p c = \<bar>sqrt (rnd (2 * i + 1)) * r\<bar>"
  by (auto simp: random_position_def planar_dist_def uniform_def Let_def polar_dist
      simp del: abs_mult)

lemma sample_DWC_radius:
  "planar_dist (sample_DWC c r rnd i) c = \<bar>rnd (2 * i + 1) * r\<bar>"
  by (simp add: sample_DWC_def planar_dist_def uniform_def Let_def polar_dist mult.commute
      del: abs_mult)

lemma is_inside_exclusion_zone_circle:
  "is_inside_exclusion_zone True zc (Radius r) pos = Inr (length_v (sub_v pos zc) < r)"
  by (simp add: is_inside_exclusion_zone_def)

lemma DWC_zone_check:
  "list_ex (\<lambda>(zone_center, zone_radius). length_v (sub_v pos zone_center) \<le> zone_radius) zs
   \<longleftrightarrow> (\<exists>z \<in> set zs. length_v (sub_v pos (fst z)) \<le> snd z)"
  by (simp add: list_ex_iff case_prod_beta)

section \<open>Exceptions come from the grid-cell computation\<close>

















section \<open>Example runs with a zero radius, a negative radius and reversed corners\<close>




section \<open>Properties of the scripts\<close>

text \<open>
  C6 (termination bound). Every loop of the model is a structurally recursive total
  function, so every run returns. One requested copy (\<open>place\<close>) performs at most 1000
  sampling iterations, and a whole run performs at most 1000 iterations for each of its
  requested copies: \<open>length objs * (1 + num_duplicates)\<close> copies in the duplicating circle
  script, \<open>length objs\<close> in the plain square script. The bound also holds for the state at
  the moment an exception leaves the run.
\<close>

theorem C6_termination_bound:
  "iters (state_of (place_DDWC fa c r zs pad gs rnd t obj s)) \<le> iters s + 1000 \<and>
   iters (state_of (distribute_and_duplicate_objects_DDWC fa c r n zo pad objs rnd))
     \<le> (length objs * (1 + nat n)) * 1000 \<and>
   iters (state_of (place_DWS amin amax zs' pad rnd obj s')) \<le> iters s' + 1000 \<and>
   iters (state_of (distribute_objects_in_area_DWS amin amax zo' pad objs rnd))
     \<le> length objs * 1000"
  using iters_place_DDWC [of fa c r zs pad gs rnd t obj s]
    iters_run_DDWC [of fa c r n zo pad objs rnd]
    iters_place_DWS [of amin amax zs' pad rnd obj s']
    iters_run_DWS [of amin amax zo' pad objs rnd]
  by simp



text \<open>
  C7 (failed copies leave the index alone; the index only grows). When the attempts for a
  copy run out (\<open>Failed\<close>), the grid is the one the copy started with, so nothing of
  that copy is seen by later validation. When a copy is placed, the grid has exactly one
  record more. Over one copy and over one selected object with all its duplicates, neither
  the number of cells nor the number of records decreases, and at the end of a run the grid
  holds exactly one record for each reported placement.
\<close>

theorem C7_failed_copy_not_indexed:
  "(place_DDWC fa c r zs pad gs rnd t obj s = Inr s' \<and>
      outcomes s' = outcomes s @ [Failed t obj] \<longrightarrow> grid s' = grid s) \<and>
   (place_DDWC fa c r zs pad gs rnd t obj s = Inr s' \<and>
      (\<exists>p. outcomes s' = outcomes s @ [Placed t obj p]) \<longrightarrow>
      record_count (grid s') = Suc (record_count (grid s))) \<and>
   grid_grows (grid s) (grid (state_of (place_DDWC fa c r zs pad gs rnd t obj s))) \<and>
   grid_grows (grid s) (grid (state_of (process_DDWC fa c r n zs pad gs rnd obj s))) \<and>
   record_count (grid (state_of (distribute_and_duplicate_objects_DDWC fa c r n zo pad objs rnd)))
     = length (placed (outcomes (state_of
         (distribute_and_duplicate_objects_DDWC fa c r n zo pad objs rnd))))"
  using place_DDWC_failed_grid [of fa c r zs pad gs rnd t obj s s']
    place_DDWC_placed_count [of fa c r zs pad gs rnd t obj s s']
    grid_grows_place_DDWC [of s fa c r zs pad gs rnd t obj]
    grid_grows_process_DDWC [of s fa c r n zs pad gs rnd obj]
    run_DDWC_inv [of fa r c n zo pad objs rnd]
  by (simp add: inv_grid_def)

theorem C7_failed_copy_not_indexed_witness:
  "place_DDWC exact_arith (Vector 0 0 0) (-1) [] (1/10) 1 (draws []) Duplicate unit_object ex_s1
     = Inr ex_failed \<and>
   outcomes ex_failed = outcomes ex_s1 @ [Failed Duplicate unit_object] \<and>
   grid ex_failed = grid ex_s1 \<and>
   place_DDWC exact_arith (Vector 0 0 0) 50 [] (1/10) 1 (draws [0, 0, 0, 1/1024]) Duplicate unit_object
     ex_s1 = Inr ex_s2 \<and>
   outcomes ex_s2 = outcomes ex_s1 @ [Placed Duplicate unit_object (Vector (25/16) 0 0)] \<and>
   record_count (grid ex_s2) = Suc (record_count (grid ex_s1))"
proof -
  have f1: "place_DDWC exact_arith (Vector 0 0 0) (-1) [] (1/10) 1 (draws []) Duplicate unit_object ex_s1
              = Inr ex_failed"
    by (simp add: place_DDWC_negative_radius ex_s1_def ex_failed_def)
  have f2: "outcomes ex_failed = outcomes ex_s1 @ [Failed Duplicate unit_object]"
    by (simp add: ex_s1_def ex_failed_def)
  have p2: "outcomes ex_s2 = outcomes ex_s1 @ [Placed Duplicate unit_object (Vector (25/16) 0 0)]"
    by (simp add: ex_s1_def ex_s2_def)
  have c1: "grid ex_failed = grid ex_s1"
    using C7_failed_copy_not_indexed [where fa = exact_arith and c = "Vector 0 0 0" and r = "-1" and zs = "[]"
        and pad = "1/10" and gs = 1 and rnd = "draws []" and t = Duplicate
        and obj = unit_object and s = ex_s1 and s' = ex_failed] f1 f2
    by blast
  have c2: "record_count (grid ex_s2) = Suc (record_count (grid ex_s1))"
    using C7_failed_copy_not_indexed [where fa = exact_arith and c = "Vector 0 0 0" and r = 50 and zs = "[]"
        and pad = "1/10" and gs = 1 and rnd = "draws [0, 0, 0, 1/1024]" and t = Duplicate
        and obj = unit_object and s = ex_s1 and s' = ex_s2] example_place_duplicate p2
    by blast
  show ?thesis using f1 f2 c1 example_place_duplicate p2 c2 by blast
qed





text \<open>
  C10 (validation is read-only). In the duplicating circle script, the plain square script
  and the add-on, an attempt whose candidate is rejected by \<open>is_valid_position\<close> returns
  the state it started with, only the iteration counter advanced: grid, \<open>positions\<close> and
  the reported outcomes are untouched. Hence, however many candidates were rejected for
  a copy, afterwards the grid (the list \<open>positions\<close>) is either the one before the copy or
  that one with a single record appended, for a candidate that was valid against it.
\<close>

theorem C10_validation_read_only:
  "(is_valid_position_DDWC fa c r zs pad gs (grid s) (sample_DDWC c r rnd (iters s))
       (dimensions obj) = Inr False \<longrightarrow>
      attempt_DDWC fa c r zs pad gs rnd t obj s = Inr (False, s\<lparr>iters := Suc (iters s)\<rparr>)) \<and>
   (\<not> is_valid_position_DWS zs' pad (positions s') (sample_square amin amax rnd (iters s'))
       (dimensions obj) \<longrightarrow>
      attempt_DWS amin amax zs' pad rnd obj s' = Inr (False, s'\<lparr>iters := Suc (iters s')\<rparr>)) \<and>
   (random_position ic ac asz rnd (iters s') = Inr p \<and>
    is_valid_position_Addon ic ac asz zc zsz pad (positions s') p (dimensions obj) = Inr False
      \<longrightarrow>
      attempt_Addon ic ac asz zc zsz pad rnd t obj s' =
        Inr (False, s'\<lparr>iters := Suc (iters s')\<rparr>)) \<and>
   (grid (state_of (place_DDWC fa c r zs pad gs rnd t obj s)) = grid s \<or>
    (\<exists>p cell. is_valid_position_DDWC fa c r zs pad gs (grid s) p (dimensions obj) = Inr True \<and>
       grid_cell fa gs p = Inr cell \<and>
       grid (state_of (place_DDWC fa c r zs pad gs rnd t obj s)) =
         fmupd cell (cell_records (grid s) cell @ [(p, dimensions obj)]) (grid s) \<and>
       outcomes (state_of (place_DDWC fa c r zs pad gs rnd t obj s)) =
         outcomes s @ [Placed t obj p])) \<and>
   (positions (state_of (place_DWS amin amax zs' pad rnd obj s')) = positions s' \<or>
    (\<exists>p. is_valid_position_DWS zs' pad (positions s') p (dimensions obj) \<and>
       positions (state_of (place_DWS amin amax zs' pad rnd obj s')) =
         positions s' @ [(p, dimensions obj)] \<and>
       outcomes (state_of (place_DWS amin amax zs' pad rnd obj s')) =
         outcomes s' @ [Placed Original obj p])) \<and>
   (positions (state_of (place_Addon ic ac asz zc zsz pad rnd t obj s')) = positions s' \<or>
    (\<exists>p. is_valid_position_Addon ic ac asz zc zsz pad (positions s') p (dimensions obj)
            = Inr True \<and>
       positions (state_of (place_Addon ic ac asz zc zsz pad rnd t obj s')) =
         positions s' @ [(p, dimensions obj)] \<and>
       outcomes (state_of (place_Addon ic ac asz zc zsz pad rnd t obj s')) =
         outcomes s' @ [Placed t obj p]))"
proof (intro conjI impI)
  assume "is_valid_position_DDWC fa c r zs pad gs (grid s) (sample_DDWC c r rnd (iters s))
       (dimensions obj) = Inr False"
  then show "attempt_DDWC fa c r zs pad gs rnd t obj s = Inr (False, s\<lparr>iters := Suc (iters s)\<rparr>)"
    by (rule attempt_DDWC_rejected)
next
  assume "\<not> is_valid_position_DWS zs' pad (positions s') (sample_square amin amax rnd (iters s'))
       (dimensions obj)"
  then show "attempt_DWS amin amax zs' pad rnd obj s' = Inr (False, s'\<lparr>iters := Suc (iters s')\<rparr>)"
    by (rule attempt_DWS_rejected)
next
  assume "random_position ic ac asz rnd (iters s') = Inr p \<and>
    is_valid_position_Addon ic ac asz zc zsz pad (positions s') p (dimensions obj) = Inr False"
  then show "attempt_Addon ic ac asz zc zsz pad rnd t obj s' =
        Inr (False, s'\<lparr>iters := Suc (iters s')\<rparr>)"
    by (simp add: attempt_Addon_rejected)
qed (rule place_DDWC_frame place_DWS_frame place_Addon_frame)+

theorem C10_validation_read_only_witness:
  "is_valid_position_DDWC exact_arith (Vector 0 0 0) 50 [] (1/10) 1 (grid ex_s1)
     (sample_DDWC (Vector 0 0 0) 50 (draws [0, 0, 0, 0]) (iters ex_s1))
     (dimensions unit_object) = Inr False \<and>
   attempt_DDWC exact_arith (Vector 0 0 0) 50 [] (1/10) 1 (draws [0, 0, 0, 0]) Duplicate unit_object ex_s1
     = Inr (False, ex_s1\<lparr>iters := Suc (iters ex_s1)\<rparr>) \<and>
   \<not> is_valid_position_DWS [] (1/10) (positions ex_p1)
       (sample_square (Vector 0 0 0) (Vector 2 2 0) (draws [0, 0, 0, 0]) (iters ex_p1))
       (dimensions unit_object) \<and>
   attempt_DWS (Vector 0 0 0) (Vector 2 2 0) [] (1/10) (draws [0, 0, 0, 0]) unit_object ex_p1
     = Inr (False, ex_p1\<lparr>iters := Suc (iters ex_p1)\<rparr>) \<and>
   random_position True (Vector 0 0 0) (Radius 10) (draws [0, 0, 0, 0]) (iters ex_p1)
     = Inr (Vector 0 0 0) \<and>
   is_valid_position_Addon True (Vector 0 0 0) (Radius 10) (Vector 0 0 0) (Radius 3) (1/10)
     (positions ex_p1) (Vector 0 0 0) (dimensions unit_object) = Inr False \<and>
   attempt_Addon True (Vector 0 0 0) (Radius 10) (Vector 0 0 0) (Radius 3) (1/10)
     (draws [0, 0, 0, 0]) Duplicate unit_object ex_p1
     = Inr (False, ex_p1\<lparr>iters := Suc (iters ex_p1)\<rparr>)"
proof -
  have h1: "is_valid_position_DDWC exact_arith (Vector 0 0 0) 50 [] (1/10) 1 (grid ex_s1)
     (sample_DDWC (Vector 0 0 0) 50 (draws [0, 0, 0, 0]) (iters ex_s1))
     (dimensions unit_object) = Inr False"
    by (simp add: example_defs ex_s1_def)
  have h2: "\<not> is_valid_position_DWS [] (1/10) (positions ex_p1)
       (sample_square (Vector 0 0 0) (Vector 2 2 0) (draws [0, 0, 0, 0]) (iters ex_p1))
       (dimensions unit_object)"
    by (simp add: is_valid_position_DWS_def sample_square_def uniform_def draws_def ex_p1_def
        unit_object_def min_dist_def length_v_def sub_v_def Let_def)
  have h3: "random_position True (Vector 0 0 0) (Radius 10) (draws [0, 0, 0, 0]) (iters ex_p1)
     = Inr (Vector 0 0 0)"
    by (simp add: random_position_def uniform_def draws_def ex_p1_def Let_def)
  have h4: "is_valid_position_Addon True (Vector 0 0 0) (Radius 10) (Vector 0 0 0) (Radius 3)
     (1/10) (positions ex_p1) (Vector 0 0 0) (dimensions unit_object) = Inr False"
    by (simp add: is_valid_position_Addon_def is_inside_area_def is_inside_exclusion_zone_def
        length_v_def sub_v_def)
  note inst = C10_validation_read_only [where fa = exact_arith and c = "Vector 0 0 0" and r = 50 and zs = "[]"
      and pad = "1/10" and gs = 1 and rnd = "draws [0, 0, 0, 0]" and t = Duplicate
      and obj = unit_object and s = ex_s1 and s' = ex_p1 and zs' = "[]"
      and amin = "Vector 0 0 0" and amax = "Vector 2 2 0" and ic = True
      and ac = "Vector 0 0 0" and asz = "Radius 10" and zc = "Vector 0 0 0"
      and zsz = "Radius 3" and p = "Vector 0 0 0"]
  from inst h1 have c1: "attempt_DDWC exact_arith (Vector 0 0 0) 50 [] (1/10) 1 (draws [0, 0, 0, 0])
      Duplicate unit_object ex_s1 = Inr (False, ex_s1\<lparr>iters := Suc (iters ex_s1)\<rparr>)"
    by blast
  from inst h2 have c2: "attempt_DWS (Vector 0 0 0) (Vector 2 2 0) [] (1/10)
      (draws [0, 0, 0, 0]) unit_object ex_p1 = Inr (False, ex_p1\<lparr>iters := Suc (iters ex_p1)\<rparr>)"
    by blast
  from inst h3 h4 have c3: "attempt_Addon True (Vector 0 0 0) (Radius 10) (Vector 0 0 0)
      (Radius 3) (1/10) (draws [0, 0, 0, 0]) Duplicate unit_object ex_p1
      = Inr (False, ex_p1\<lparr>iters := Suc (iters ex_p1)\<rparr>)"
    by blast
  from h1 c1 h2 c2 h3 h4 c3 show ?thesis by blast
qed

text \<open>
  C1 (area-uniform sampling in a circle). The duplicating circle script and the add-on
  take the radius of a candidate as \<open>sqrt(uniform(0, 1)) * R\<close>; the plain circle script
  takes \<open>uniform(0, R)\<close>. With the angle draw 0 and the radius draw 1/4 in a circle of
  radius 4 around the origin, the plain script puts the candidate at distance 1 from the
  centre, the other two at distance 2.
\<close>

theorem C1_radius_uniform_in_DWC:
  "sample_DWC (Vector 0 0 0) 4 (draws [0, 1/4]) 0 = Vector 1 0 0 \<and>
   sample_DDWC (Vector 0 0 0) 4 (draws [0, 1/4]) 0 = Vector 2 0 0 \<and>
   random_position True (Vector 0 0 0) (Radius 4) (draws [0, 1/4]) 0 = Inr (Vector 2 0 0)"
  by (simp add: sample_DWC_def sample_DDWC_def random_position_def uniform_def draws_def
      Let_def sqrt_quarter)

text \<open>
  C5 (boundary of a circular exclusion zone). A candidate at distance exactly the zone
  radius (here 1) from the zone centre is rejected by the plain circle script, which
  compares with \<open><=\<close>; without the zone the same candidate is valid there. The
  duplicating circle script and the add-on compare with \<open><\<close> and do not exclude it.
\<close>

theorem C5_boundary_excluded_in_DWC:
  "is_valid_position_DWC (Vector 0 0 0) 10 [(Vector 0 0 0, 1)] (1/10) [] (Vector 1 0 0)
     (Vector (1/2) (1/2) (1/2)) = False \<and>
   is_valid_position_DWC (Vector 0 0 0) 10 [] (1/10) [] (Vector 1 0 0)
     (Vector (1/2) (1/2) (1/2)) = True \<and>
   is_valid_position_DDWC exact_arith (Vector 0 0 0) 50 [(Vector 0 0 0, 1)] (1/10) 1 fmempty
     (Vector 1 0 0) (Vector (1/2) (1/2) (1/2)) = Inr True \<and>
   is_inside_exclusion_zone True (Vector 0 0 0) (Radius 1) (Vector 1 0 0) = Inr False"
  by (simp add: is_valid_position_DWC_def is_valid_position_DDWC_def
      is_inside_exclusion_zone_def length_v_def sub_v_def grid_cell_def int_floordiv_def
      floordiv_inexact_exact neighbors_def)

text \<open>
  C9 (empty selection). With no selected object every script returns at once, normally,
  in its initial state: no outcome reported, no position recorded, no sampling iteration
  done, the grid empty. (The scripts print \<open>No objects selected.\<close>)
\<close>

theorem C9_empty_selection:
  "distribute_objects_in_area_DWC c r zo pad [] rnd = Inr init_state \<and>
   distribute_and_duplicate_objects_Addon ac asz zc zsz n pad ic don [] rnd = Inr init_state \<and>
   distribute_objects_in_area_DWS amin amax zo' pad [] rnd = Inr init_state \<and>
   distribute_and_duplicate_objects_DDWC fa c r n zo pad [] rnd = Inr init_gstate \<and>
   distribute_and_duplicate_objects_DDWS fa amin amax n zo' pad [] rnd = Inr init_gstate \<and>
   outcomes init_state = [] \<and> positions init_state = [] \<and> iters init_state = 0 \<and>
   outcomes init_gstate = [] \<and> positions init_gstate = [] \<and> iters init_gstate = 0 \<and>
   grid init_gstate = fmempty"
  by (simp add: distribute_objects_in_area_DWC_def distribute_and_duplicate_objects_Addon_def
      distribute_objects_in_area_DWS_def distribute_and_duplicate_objects_DDWC_def
      distribute_and_duplicate_objects_DDWS_def init_state_def init_gstate_def)




end
